theory Spec2Isabelle
  imports Complex_Main "HOL-Library.AList"
begin

section \<open>Analytics aggregation backends: shared data model\<close>

text \<open>
  The two storage backends of the analytics API, \<^verbatim>\<open>GoogleCloudBigQuery\<close> and
  \<^verbatim>\<open>MongoDb\<close>, both extend \<^verbatim>\<open>BaseDatabase\<close>. Each metric operation builds a query
  (an SQL text or an aggregation pipeline) and sends it to the store. The embedding gives
  every query the meaning the store gives it, as a function on the list of stored rows.

  Conventions of the embedding:
  \<^item> a point in time (a \<^verbatim>\<open>Date\<close>, \<^verbatim>\<open>dt\<close>, \<^verbatim>\<open>_PARTITIONTIME\<close>) is an \<^typ>\<open>int\<close>, the milliseconds
    since the epoch that a JavaScript \<^verbatim>\<open>Date\<close> holds; the \<^verbatim>\<open>DATETIME\<close> column \<^verbatim>\<open>dt\<close> of the
    warehouse is read as the milliseconds of that civil time, and finer fractions are not
    modelled;
  \<^item> the time zone of the process that builds the queries is a parameter, \<open>tz\<close>;
  \<^item> a string column that is NULL in the warehouse, or a field that is absent from a
    document, is a key without an entry in \<open>flds\<close>; a field is absent or holds a string
    (a field with an explicit null is not modelled);
  \<^item> the order in which a store returns the groups of a grouping is not specified by
    either store; the model returns each group once, in the order of \<open>remdups\<close>, and sorts stably.
\<close>

datatype LogPriority = DEBUG | ERROR

text \<open>
  \<^verbatim>\<open>GenericError(message, priority, flag)\<close>, with the flag false where the source leaves it
  out, and the error with which a store rejects or fails a query.
\<close>

datatype error =
    GenericError string LogPriority bool
  | ExecutionError string

datatype EntityKind = App | IngestEndpoint

record Entity =
  kind :: EntityKind
  entity_id :: string
  usageIngestEndpointEnvironmentId :: "string option"

record EventRow =
  dt :: int
  user_hash :: string
  flds :: "(string \<times> string) list"
  partition_time :: "int option"

definition col :: "EventRow \<Rightarrow> string \<Rightarrow> string option" where
  "col r name = map_of (flds r) name"

record FilterOptions =
  from_dt :: int
  to_dt :: int
  revision :: "string option"
  environment :: "string option"
  event :: "string option"
  event_group :: "string option"
  utm_source :: "string option"
  utm_medium :: "string option"
  utm_campaign :: "string option"
  utm_term :: "string option"
  utm_content :: "string option"
  country :: "string option"
  referrer :: "string option"
  referrer_tld :: "string option"
  page :: "string option"
  mobile :: "bool option"
  browser :: "string option"
  os :: "string option"

record QueryOptions =
  time_slice :: string
  filter_options :: FilterOptions
  limit :: nat

definition constructor_name :: "Entity \<Rightarrow> string" where
  "constructor_name e = (case kind e of App \<Rightarrow> ''App'' | IngestEndpoint \<Rightarrow> ''IngestEndpoint'')"

subsection \<open>Time-slice formats\<close>

text \<open>\<^verbatim>\<open>GoogleCloudBigQuery.getFormatForTimeSlice\<close>: a switch over the five slices, then a throw.\<close>

definition bq_getFormatForTimeSlice :: "QueryOptions \<Rightarrow> error + string" where
  "bq_getFormatForTimeSlice options =
     (if time_slice options = ''YEAR'' then Inr ''%Y''
      else if time_slice options = ''MONTH'' then Inr ''%Y-%m''
      else if time_slice options = ''DAY'' then Inr ''%Y-%m-%d''
      else if time_slice options = ''HOUR'' then Inr ''%Y-%m-%d %H:00:00''
      else if time_slice options = ''MINUTE'' then Inr ''%Y-%m-%d %H:%M:00''
      else Inl (GenericError (''Unsupported time slice '' @ time_slice options) DEBUG True))"

text \<open>\<^verbatim>\<open>MongoDb.getFormatForTimeSlice\<close>: the same switch, written a second time.\<close>

definition mongo_getFormatForTimeSlice :: "QueryOptions \<Rightarrow> error + string" where
  "mongo_getFormatForTimeSlice options =
     (if time_slice options = ''YEAR'' then Inr ''%Y''
      else if time_slice options = ''MONTH'' then Inr ''%Y-%m''
      else if time_slice options = ''DAY'' then Inr ''%Y-%m-%d''
      else if time_slice options = ''HOUR'' then Inr ''%Y-%m-%d %H:00:00''
      else if time_slice options = ''MINUTE'' then Inr ''%Y-%m-%d %H:%M:00''
      else Inl (GenericError (''Unsupported time slice '' @ time_slice options) DEBUG True))"

subsection \<open>Result shaping, errors and the stores\<close>

text \<open>
  Modelled from the spec: \<^verbatim>\<open>BaseDatabase.getResultWithRange\<close>, \<^verbatim>\<open>getRangeFromAsDate\<close> and
  \<^verbatim>\<open>getRangeToAsDate\<close> are declared in \<^verbatim>\<open>abstractions/BaseDatabase\<close>, which is not among the
  sources. The spec says that every result is wrapped with the originally requested
  \<open>from\<close> and \<open>to\<close>, and that the window is \<open>[from, to)\<close> over \<open>filter_options\<close>.
\<close>

record 'a RangedResult =
  result :: 'a
  range_from :: int
  range_to :: int

definition getResultWithRange :: "QueryOptions \<Rightarrow> 'a \<Rightarrow> 'a RangedResult" where
  "getResultWithRange queryOptions r =
     \<lparr>result = r, range_from = from_dt (filter_options queryOptions),
      range_to = to_dt (filter_options queryOptions)\<rparr>"

definition getRangeFromAsDate :: "QueryOptions \<Rightarrow> int" where
  "getRangeFromAsDate queryOptions = from_dt (filter_options queryOptions)"

definition getRangeToAsDate :: "QueryOptions \<Rightarrow> int" where
  "getRangeToAsDate queryOptions = to_dt (filter_options queryOptions)"

text \<open>\<^verbatim>\<open>try { ... } catch (e) { ... }\<close>: the handler runs on the error of the body.\<close>

definition try_catch :: "error + 'a \<Rightarrow> (error \<Rightarrow> error + 'a) \<Rightarrow> error + 'a" where
  "try_catch body handler = (case body of Inl e \<Rightarrow> handler e | Inr v \<Rightarrow> Inr v)"

definition bind_result :: "error + 'a \<Rightarrow> ('a \<Rightarrow> error + 'b) \<Rightarrow> error + 'b" where
  "bind_result m f = (case m of Inl e \<Rightarrow> Inl e | Inr v \<Rightarrow> f v)"

text \<open>
  The warehouse client. \<open>createQueryJob\<close> answers for a table with the error it rejects the
  job with, if any; \<open>getQueryResults\<close> answers with the rows of the table, or with the
  error the running job fails with; \<open>NET_REG_DOMAIN\<close> is the warehouse's function of that
  name (the registered domain of a URL, NULL when there is none).
\<close>

record BigQuery =
  createQueryJob :: "string \<Rightarrow> error option"
  getQueryResults :: "string \<Rightarrow> error + EventRow list"
  NET_REG_DOMAIN :: "string \<Rightarrow> string option"

text \<open>
  The document store (\<^verbatim>\<open>Shell\<close>): for the name of a collection, its documents, or the
  error with which an aggregation over it fails.
\<close>

type_synonym Shell = "string \<Rightarrow> error + EventRow list"

record BaseConfig =
  getGCProjectId :: string
  getAnalyticsDataSetName :: string

subsection \<open>Resolving the table and the collection\<close>

definition bq_getTable :: "BaseConfig \<Rightarrow> Entity \<Rightarrow> error + string" where
  "bq_getTable config entity =
     (case usageIngestEndpointEnvironmentId entity of
        None \<Rightarrow>
          Inl (GenericError
                (''Unable to find usage endpoint for '' @ constructor_name entity @ '': '' @ entity_id entity)
                ERROR False)
      | Some u \<Rightarrow>
          Inr ([CHR 0x60] @ getGCProjectId config @ ''.'' @ getAnalyticsDataSetName config
               @ ''.s8_'' @ u @ ''_*'' @ [CHR 0x60]))"

definition mongo_getCollection :: "Entity \<Rightarrow> error + string" where
  "mongo_getCollection entity =
     (case usageIngestEndpointEnvironmentId entity of
        None \<Rightarrow>
          Inl (GenericError
                (''Unable to find usage endpoint for '' @ constructor_name entity @ '': '' @ entity_id entity)
                ERROR False)
      | Some u \<Rightarrow> Inr (''s8_'' @ u))"

subsection \<open>Running a query\<close>

text \<open>
  \<^verbatim>\<open>GoogleCloudBigQuery.query\<close>: the job is created before the \<^verbatim>\<open>try\<close>; only
  \<^verbatim>\<open>job.getQueryResults()\<close> stands inside it. The SQL text is represented by the table it
  reads and the function \<open>q\<close> it computes on the rows of that table.
\<close>

definition bq_query ::
  "BigQuery \<Rightarrow> string \<Rightarrow> (EventRow list \<Rightarrow> 'a list) \<Rightarrow> error + 'a list" where
  "bq_query bq table q =
     (case createQueryJob bq table of
        Some e \<Rightarrow> Inl e
      | None \<Rightarrow>
          try_catch
            (bind_result (getQueryResults bq table) (\<lambda>rows. Inr (q rows)))
            (\<lambda>e. Inr []))"

text \<open>
  \<^verbatim>\<open>MongoDb.runAggregation\<close>: \<^verbatim>\<open>getCollection\<close>, the aggregation and the optional limit all
  stand inside the \<^verbatim>\<open>try\<close>; the handler logs and returns the empty list.
\<close>

definition runAggregation ::
  "Shell \<Rightarrow> Entity \<Rightarrow> (EventRow list \<Rightarrow> 'a list) \<Rightarrow> nat option \<Rightarrow> error + 'a list" where
  "runAggregation shell entity pipeline lmt =
     try_catch
       (bind_result (mongo_getCollection entity) (\<lambda>collection.
        bind_result (shell collection) (\<lambda>docs.
          Inr (case lmt of None \<Rightarrow> pipeline docs | Some n \<Rightarrow> take n (pipeline docs)))))
       (\<lambda>e. Inr [])"

subsection \<open>JavaScript and SQL arithmetic\<close>

text \<open>
  \<^verbatim>\<open>Math.round\<close> rounds to the nearest integer, a half towards plus infinity; applied to
  \<^verbatim>\<open>null\<close> (an SQL NULL in a result row) it is 0. Numbers are exact rationals here.
\<close>

definition Math_round :: "rat option \<Rightarrow> int" where
  "Math_round v = (case v of None \<Rightarrow> 0 | Some x \<Rightarrow> \<lfloor>x + 1 / 2\<rfloor>)"

text \<open>\<^verbatim>\<open>SUM\<close> and \<^verbatim>\<open>AVG\<close> of SQL are NULL over no rows.\<close>

definition sql_SUM :: "int list \<Rightarrow> int option" where
  "sql_SUM xs = (if xs = [] then None else Some (sum_list xs))"

definition sql_AVG :: "int list \<Rightarrow> rat option" where
  "sql_AVG xs = (if xs = [] then None else Some (of_int (sum_list xs) / of_nat (length xs)))"

text \<open>\<^verbatim>\<open>a / b\<close> of SQL is NULL when an operand is; its divisor here is a sum of positive
  counts, so the division by zero that SQL raises does not arise.\<close>

definition sql_divide :: "int option \<Rightarrow> int option \<Rightarrow> rat option" where
  "sql_divide a b =
     (case (a, b) of (Some x, Some y) \<Rightarrow> Some (of_int x / of_int y) | _ \<Rightarrow> None)"

text \<open>Grouping: one group per key, with the rows of the group in their given order.\<close>

definition group_by :: "('a \<Rightarrow> 'k) \<Rightarrow> 'a list \<Rightarrow> ('k \<times> 'a list) list" where
  "group_by f xs = map (\<lambda>k. (k, filter (\<lambda>x. f x = k) xs)) (remdups (map f xs))"

subsection \<open>Strings\<close>

fun instr_at :: "nat \<Rightarrow> string \<Rightarrow> string \<Rightarrow> nat" where
  "instr_at i [] sub = (if sub = [] then i else 0)"
| "instr_at i (c # s) sub =
     (if take (length sub) (c # s) = sub then i else instr_at (Suc i) s sub)"

text \<open>SQL \<^verbatim>\<open>INSTR(value, sub)\<close>: the 1-based position of the first occurrence, 0 when none.\<close>

definition INSTR :: "string \<Rightarrow> string \<Rightarrow> nat" where
  "INSTR s sub = instr_at 1 s sub"

text \<open>
  SQL \<^verbatim>\<open>value LIKE pattern\<close>: \<open>%\<close> stands for any run of characters, \<open>_\<close> for one
  character, a backslash takes the next character literally.
\<close>

fun sql_like :: "string \<Rightarrow> string \<Rightarrow> bool" where
  "sql_like [] [] = True"
| "sql_like [] (c # s) = False"
| "sql_like (p # ps) [] = (p = CHR ''%'' \<and> sql_like ps [])"
| "sql_like (p # ps) (c # s) =
     (if p = CHR ''%'' then sql_like ps (c # s) \<or> sql_like (p # ps) s
      else if p = CHR ''_'' then sql_like ps s
      else if p = CHR 0x5C then (case ps of [] \<Rightarrow> False | q # qs \<Rightarrow> c = q \<and> sql_like qs s)
      else c = p \<and> sql_like ps s)"

definition to_lower :: "char \<Rightarrow> char" where
  "to_lower c =
     (case map_of (zip ''ABCDEFGHIJKLMNOPQRSTUVWXYZ'' ''abcdefghijklmnopqrstuvwxyz'') c of
        None \<Rightarrow> c | Some l \<Rightarrow> l)"

text \<open>
  A regular expression \<^verbatim>\<open>/word/i\<close> whose pattern is a plain word: it matches the strings
  that contain the word, letters compared without case.
\<close>

definition regex_i :: "string \<Rightarrow> string \<Rightarrow> bool" where
  "regex_i word s = (0 < INSTR (map to_lower s) (map to_lower word))"

subsection \<open>SQL conditions and their three-valued meaning\<close>

text \<open>
  The \<^verbatim>\<open>where\<close> text of a filter, as a term. A run of conditions joined by \<^verbatim>\<open>AND\<close> is nested
  as the text is built, not as SQL parses it; \<^verbatim>\<open>AND\<close> is associative. A named parameter \<^verbatim>\<open>@p\<close> is written as the
  value that \<^verbatim>\<open>params\<close> binds to it (every clause binds a name of its own), so \<^verbatim>\<open>params\<close>
  itself is not carried along. A \<^verbatim>\<open>DATE\<close> literal is the number of its day, a
  \<^verbatim>\<open>DATETIME\<close> literal the number of its second, both counted from 1970-01-01 00:00:00;
  \<^verbatim>\<open>DATE(_PARTITIONTIME)\<close> is the day of the time stamp in UTC.
\<close>

datatype sql_cond =
    SqlEq string string
  | SqlLike string string
  | SqlRegDomainEq string
  | SqlInstrPos string string
  | SqlNotEmpty string
  | SqlIsNotNull string
  | SqlPartitionDateGe int
  | SqlPartitionDateLe int
  | SqlPartitionDateIsNull
  | SqlDtGe int
  | SqlDtLt int
  | SqlAnd sql_cond sql_cond
  | SqlOr sql_cond sql_cond
  | SqlNot sql_cond

definition sql_and :: "bool option \<Rightarrow> bool option \<Rightarrow> bool option" where
  "sql_and a b =
     (if a = Some False \<or> b = Some False then Some False
      else if a = Some True \<and> b = Some True then Some True else None)"

definition sql_or :: "bool option \<Rightarrow> bool option \<Rightarrow> bool option" where
  "sql_or a b =
     (if a = Some True \<or> b = Some True then Some True
      else if a = Some False \<and> b = Some False then Some False else None)"

text \<open>The columns of a row by name; a column without a value is NULL.\<close>

definition sql_col :: "EventRow \<Rightarrow> string \<Rightarrow> string option" where
  "sql_col r name = (if name = ''user_hash'' then Some (user_hash r) else col r name)"

text \<open>
  \<^verbatim>\<open>REPLACE(FORMAT("%T", NET.REG_DOMAIN(referrer_url)), "\"", "")\<close>: \<^verbatim>\<open>FORMAT("%T", _)\<close>
  prints NULL as the text NULL and a string in double quotes, which \<^verbatim>\<open>REPLACE\<close> removes.
\<close>

definition reg_domain_text :: "(string \<Rightarrow> string option) \<Rightarrow> EventRow \<Rightarrow> string" where
  "reg_domain_text regd r =
     (case (case sql_col r ''referrer_url'' of None \<Rightarrow> None | Some u \<Rightarrow> regd u) of
        None \<Rightarrow> ''NULL''
      | Some d \<Rightarrow> filter (\<lambda>c. c \<noteq> CHR 0x22) d)"

fun sql_eval :: "(string \<Rightarrow> string option) \<Rightarrow> sql_cond \<Rightarrow> EventRow \<Rightarrow> bool option" where
  "sql_eval regd (SqlEq c v) r = map_option (\<lambda>x. x = v) (sql_col r c)"
| "sql_eval regd (SqlLike c p) r = map_option (\<lambda>x. sql_like p x) (sql_col r c)"
| "sql_eval regd (SqlRegDomainEq v) r = Some (reg_domain_text regd r = v)"
| "sql_eval regd (SqlInstrPos c sub) r = map_option (\<lambda>x. 0 < INSTR x sub) (sql_col r c)"
| "sql_eval regd (SqlNotEmpty c) r = map_option (\<lambda>x. x \<noteq> []) (sql_col r c)"
| "sql_eval regd (SqlIsNotNull c) r = Some (sql_col r c \<noteq> None)"
| "sql_eval regd (SqlPartitionDateGe d) r =
     map_option (\<lambda>p. d \<le> p div 86400000) (partition_time r)"
| "sql_eval regd (SqlPartitionDateLe d) r =
     map_option (\<lambda>p. p div 86400000 \<le> d) (partition_time r)"
| "sql_eval regd SqlPartitionDateIsNull r = Some (partition_time r = None)"
| "sql_eval regd (SqlDtGe t) r = Some (t * 1000 \<le> dt r)"
| "sql_eval regd (SqlDtLt t) r = Some (dt r < t * 1000)"
| "sql_eval regd (SqlAnd a b) r = sql_and (sql_eval regd a r) (sql_eval regd b r)"
| "sql_eval regd (SqlOr a b) r = sql_or (sql_eval regd a r) (sql_eval regd b r)"
| "sql_eval regd (SqlNot a) r = map_option Not (sql_eval regd a r)"

text \<open>A \<^verbatim>\<open>WHERE\<close> or \<^verbatim>\<open>HAVING\<close> keeps the rows on which the condition is TRUE.\<close>

definition sql_where :: "(string \<Rightarrow> string option) \<Rightarrow> sql_cond \<Rightarrow> EventRow \<Rightarrow> bool" where
  "sql_where regd c r = (sql_eval regd c r = Some True)"

section \<open>The columnar warehouse backend: filters\<close>

text \<open>\<^verbatim>\<open>MOBILE_TEST\<close>: five tests joined by \<^verbatim>\<open>OR\<close>, in parentheses.\<close>

definition bq_MOBILE_TEST :: sql_cond where
  "bq_MOBILE_TEST =
     SqlOr (SqlOr (SqlOr (SqlOr (SqlInstrPos ''browser_name'' ''Mobile'')
                                (SqlEq ''device_name'' ''iPhone''))
                         (SqlEq ''device_name'' ''iPad''))
                  (SqlEq ''os_name'' ''iOS''))
           (SqlEq ''os_name'' ''Android'')"

text \<open>
  The local time zone, as ECMAScript has it: \<open>LocalTZA_utc tz t\<close> is the offset of the zone
  from UTC, in milliseconds, at the instant \<open>t\<close> (\<^verbatim>\<open>LocalTZA(t, true)\<close>), and
  \<open>LocalTZA_local tz t\<close> the offset that belongs to the local time value \<open>t\<close>
  (\<^verbatim>\<open>LocalTZA(t, false)\<close>).
\<close>

record TimeZone =
  LocalTZA_utc :: "int \<Rightarrow> int"
  LocalTZA_local :: "int \<Rightarrow> int"

definition LocalTime :: "TimeZone \<Rightarrow> int \<Rightarrow> int" where
  "LocalTime tz t = t + LocalTZA_utc tz t"

definition UTC_of_local :: "TimeZone \<Rightarrow> int \<Rightarrow> int" where
  "UTC_of_local tz t = t - LocalTZA_local tz t"

text \<open>
  The functions of \<^verbatim>\<open>date-fns\<close> that the backend calls. \<^verbatim>\<open>format\<close> prints the fields of the
  local time and drops what the pattern does not show: \<^verbatim>\<open>'yyyy-MM-dd'\<close> names a day,
  \<^verbatim>\<open>'yyyy-MM-dd HH:mm:ss'\<close> a second. \<^verbatim>\<open>sub\<close> with days and hours first sets the local
  calendar date back (\<^verbatim>\<open>setDate(getDate() - days)\<close>, the time of day kept) and then takes
  the hours off the instant.
\<close>

definition format_yyyy_MM_dd :: "TimeZone \<Rightarrow> int \<Rightarrow> int" where
  "format_yyyy_MM_dd tz d = LocalTime tz d div 86400000"

definition format_yyyy_MM_dd_HH_mm_ss :: "TimeZone \<Rightarrow> int \<Rightarrow> int" where
  "format_yyyy_MM_dd_HH_mm_ss tz d = LocalTime tz d div 1000"

definition subDays :: "TimeZone \<Rightarrow> int \<Rightarrow> int \<Rightarrow> int" where
  "subDays tz d amount = UTC_of_local tz (LocalTime tz d - amount * 86400000)"

definition sub_days_hours :: "TimeZone \<Rightarrow> int \<Rightarrow> int \<Rightarrow> int \<Rightarrow> int" where
  "sub_days_hours tz d days hours = subDays tz d days - hours * 3600000"

definition isAfter :: "int \<Rightarrow> int \<Rightarrow> bool" where
  "isAfter d dateToCompare = (dateToCompare < d)"

definition getRangeFrom :: "TimeZone \<Rightarrow> QueryOptions \<Rightarrow> int" where
  "getRangeFrom tz options = format_yyyy_MM_dd_HH_mm_ss tz (from_dt (filter_options options))"

definition getRangeTo :: "TimeZone \<Rightarrow> QueryOptions \<Rightarrow> int" where
  "getRangeTo tz options = format_yyyy_MM_dd_HH_mm_ss tz (to_dt (filter_options options))"

definition getPartitionWindowFrom :: "TimeZone \<Rightarrow> QueryOptions \<Rightarrow> int" where
  "getPartitionWindowFrom tz options = format_yyyy_MM_dd tz (from_dt (filter_options options))"

definition getPartitionWindowTo :: "TimeZone \<Rightarrow> QueryOptions \<Rightarrow> int" where
  "getPartitionWindowTo tz options = format_yyyy_MM_dd tz (to_dt (filter_options options))"

text \<open>
  \<^verbatim>\<open>includeBuffer\<close>: \<^verbatim>\<open>isAfter(to, sub(new Date(), {days: 1, hours: 1}))\<close>. The clock
  \<^verbatim>\<open>new Date()\<close> is the argument \<open>now\<close>.
\<close>

definition includeBuffer :: "TimeZone \<Rightarrow> int \<Rightarrow> QueryOptions \<Rightarrow> bool" where
  "includeBuffer tz now options =
     isAfter (to_dt (filter_options options)) (sub_days_hours tz now 1 1)"

definition generateRange :: "TimeZone \<Rightarrow> int \<Rightarrow> QueryOptions \<Rightarrow> sql_cond" where
  "generateRange tz now options =
     (let partitionRange =
            SqlAnd (SqlPartitionDateGe (getPartitionWindowFrom tz options))
                   (SqlPartitionDateLe (getPartitionWindowTo tz options));
          filterRange = SqlAnd (SqlDtGe (getRangeFrom tz options))
                               (SqlDtLt (getRangeTo tz options))
      in if includeBuffer tz now options
         then SqlAnd (SqlOr partitionRange SqlPartitionDateIsNull) filterRange
         else SqlAnd partitionRange filterRange)"

text \<open>The \<^verbatim>\<open>reduce\<close> of both filter builders: an undefined clause is skipped, a defined
  one is appended with \<^verbatim>\<open>AND\<close>.\<close>

definition bq_reduce_step :: "sql_cond \<Rightarrow> sql_cond option \<Rightarrow> sql_cond" where
  "bq_reduce_step a c = (case c of None \<Rightarrow> a | Some w \<Rightarrow> SqlAnd a w)"

definition bq_reduce :: "sql_cond \<Rightarrow> sql_cond option list \<Rightarrow> sql_cond" where
  "bq_reduce init clauses = foldl bq_reduce_step init clauses"

definition bq_getMobile :: "QueryOptions \<Rightarrow> sql_cond option" where
  "bq_getMobile queryOptions =
     (case mobile (filter_options queryOptions) of
        Some True \<Rightarrow> Some bq_MOBILE_TEST
      | Some False \<Rightarrow> Some (SqlNot bq_MOBILE_TEST)
      | None \<Rightarrow> None)"

definition bq_getAppFilter :: "TimeZone \<Rightarrow> int \<Rightarrow> QueryOptions \<Rightarrow> sql_cond" where
  "bq_getAppFilter tz now queryOptions =
     (let fo = filter_options queryOptions in
      bq_reduce (generateRange tz now queryOptions)
        [map_option (SqlEq ''revision_id'') (revision fo),
         map_option (SqlEq ''environment_id'') (environment fo),
         map_option (SqlEq ''event'') (event fo),
         map_option (SqlEq ''event_group'') (event_group fo),
         map_option (SqlEq ''utm_source'') (utm_source fo),
         map_option (SqlEq ''utm_medium'') (utm_medium fo),
         map_option (SqlEq ''utm_campaign'') (utm_campaign fo),
         map_option (SqlEq ''utm_term'') (utm_term fo),
         map_option (SqlEq ''utm_content'') (utm_content fo),
         map_option (SqlEq ''user_country'') (country fo),
         map_option (SqlLike ''page_url'') (page fo),
         map_option (SqlLike ''referrer_url'') (referrer fo),
         map_option SqlRegDomainEq (referrer_tld fo),
         bq_getMobile queryOptions,
         map_option (SqlEq ''browser_name'') (browser fo),
         map_option (SqlEq ''os_name'') (os fo)])"


section \<open>The document backend: filters\<close>

text \<open>
  A filter object maps a key to a condition; \<^verbatim>\<open>Object.assign\<close> sets the keys of its second
  argument in the first, a key that is there already keeps its place and takes the new
  condition. \<^verbatim>\<open>$or\<close> and \<^verbatim>\<open>$nor\<close> carry the list of single-entry objects
  \<^verbatim>\<open>{field: /word/i}\<close>.
\<close>

datatype mongo_cond =
    MEqual string
  | MDtRange int int
  | MExists
  | MOr "(string \<times> string) list"
  | MNor "(string \<times> string) list"

type_synonym mongo_filter = "(string \<times> mongo_cond) list"

definition assign :: "mongo_filter \<Rightarrow> mongo_filter \<Rightarrow> mongo_filter" where
  "assign a c = fold (\<lambda>(k, v) m. AList.update k v m) c a"

definition mongo_MOBILE_TEST :: "(string \<times> string) list" where
  "mongo_MOBILE_TEST =
     [(''browser_name'', ''mobile''), (''device_name'', ''iphone''), (''device_name'', ''ipad''),
      (''os_name'', ''ios''), (''os_name'', ''android'')]"

definition getAsMobileFilter :: "(string \<times> string) list" where
  "getAsMobileFilter = map (\<lambda>(input, regex). (input, regex)) mongo_MOBILE_TEST"

definition mongo_field :: "EventRow \<Rightarrow> string \<Rightarrow> string option" where
  "mongo_field d name = (if name = ''user_hash'' then Some (user_hash d) else col d name)"

text \<open>A document matches \<^verbatim>\<open>{field: /word/i}\<close> when it has the field and the value matches.\<close>

definition regex_test :: "EventRow \<Rightarrow> string \<times> string \<Rightarrow> bool" where
  "regex_test d t =
     (case mongo_field d (fst t) of None \<Rightarrow> False | Some x \<Rightarrow> regex_i (snd t) x)"

fun mongo_holds :: "EventRow \<Rightarrow> string \<times> mongo_cond \<Rightarrow> bool" where
  "mongo_holds d (k, MEqual v) = (mongo_field d k = Some v)"
| "mongo_holds d (k, MDtRange a b) = (a \<le> dt d \<and> dt d < b)"
| "mongo_holds d (k, MExists) = (mongo_field d k \<noteq> None)"
| "mongo_holds d (k, MOr ts) = list_ex (regex_test d) ts"
| "mongo_holds d (k, MNor ts) = (\<not> list_ex (regex_test d) ts)"

definition mongo_match :: "mongo_filter \<Rightarrow> EventRow \<Rightarrow> bool" where
  "mongo_match f d = list_all (mongo_holds d) f"

text \<open>\<^verbatim>\<open>getFilterObjectFromStringFilterOption\<close>, given the value of the filter option.\<close>

definition getFilterObjectFromStringFilterOption ::
  "string option \<Rightarrow> string \<Rightarrow> mongo_filter option" where
  "getFilterObjectFromStringFilterOption v filterKey =
     (case v of Some x \<Rightarrow> Some [(filterKey, MEqual x)] | None \<Rightarrow> None)"

definition mongo_getRange :: "QueryOptions \<Rightarrow> mongo_filter" where
  "mongo_getRange queryOptions =
     [(''dt'', MDtRange (getRangeFromAsDate queryOptions) (getRangeToAsDate queryOptions))]"

definition mongo_getMobile :: "QueryOptions \<Rightarrow> mongo_filter option" where
  "mongo_getMobile queryOptions =
     (case mobile (filter_options queryOptions) of
        Some b \<Rightarrow> Some (if b then [(''$or'', MOr getAsMobileFilter)]
                        else [(''$nor'', MNor getAsMobileFilter)])
      | None \<Rightarrow> None)"

text \<open>The \<^verbatim>\<open>reduce\<close> of the filter builders: \<^verbatim>\<open>c === undefined ? a : Object.assign(a, c)\<close>,
  from the empty object.\<close>

definition mongo_reduce_step :: "mongo_filter \<Rightarrow> mongo_filter option \<Rightarrow> mongo_filter" where
  "mongo_reduce_step a c = (case c of None \<Rightarrow> a | Some ob \<Rightarrow> assign a ob)"

definition mongo_reduce :: "mongo_filter option list \<Rightarrow> mongo_filter" where
  "mongo_reduce clauses = foldl mongo_reduce_step [] clauses"

definition mongo_getAppFilter :: "QueryOptions \<Rightarrow> mongo_filter" where
  "mongo_getAppFilter queryOptions =
     (let fo = filter_options queryOptions in
      mongo_reduce
        [Some (mongo_getRange queryOptions),
         getFilterObjectFromStringFilterOption (revision fo) ''revision_id'',
         getFilterObjectFromStringFilterOption (environment fo) ''environment_id'',
         getFilterObjectFromStringFilterOption (event fo) ''event'',
         getFilterObjectFromStringFilterOption (event_group fo) ''event_group'',
         getFilterObjectFromStringFilterOption (utm_source fo) ''utm_source'',
         getFilterObjectFromStringFilterOption (utm_medium fo) ''utm_medium'',
         getFilterObjectFromStringFilterOption (utm_campaign fo) ''utm_campaign'',
         getFilterObjectFromStringFilterOption (utm_term fo) ''utm_term'',
         getFilterObjectFromStringFilterOption (utm_content fo) ''utm_content'',
         getFilterObjectFromStringFilterOption (country fo) ''user_country'',
         getFilterObjectFromStringFilterOption (page fo) ''page_url'',
         getFilterObjectFromStringFilterOption (referrer fo) ''referrer_url'',
         getFilterObjectFromStringFilterOption (referrer_tld fo) ''referrer_url'',
         mongo_getMobile queryOptions,
         getFilterObjectFromStringFilterOption (browser fo) ''browser_name'',
         getFilterObjectFromStringFilterOption (os fo) ''os_name''])"


section \<open>Metric operations\<close>

record GroupingCounts =
  key :: "string option"
  user_count :: nat
  event_count :: nat

datatype PageFilter = ENTRY | EXIT

fun list_min :: "int list \<Rightarrow> int option" where
  "list_min [] = None"
| "list_min (x # xs) = Some (fold min xs x)"

fun list_max :: "int list \<Rightarrow> int option" where
  "list_max [] = None"
| "list_max (x # xs) = Some (fold max xs x)"

text \<open>\<^verbatim>\<open>ORDER BY user_count DESC\<close> and \<^verbatim>\<open>$sort: {user_count: -1}\<close>.\<close>

definition by_user_count_desc :: "GroupingCounts list \<Rightarrow> GroupingCounts list" where
  "by_user_count_desc rows = sort_key (\<lambda>r. - int (user_count r)) rows"

text \<open>\<^verbatim>\<open>rows.length > 0 ? Math.round(rows[0][..]) : 0\<close>.\<close>

definition first_rounded :: "rat option list \<Rightarrow> int" where
  "first_rounded rows = (case rows of [] \<Rightarrow> 0 | r # _ \<Rightarrow> Math_round r)"

subsection \<open>Columnar warehouse backend\<close>

text \<open>
  \<^verbatim>\<open>SELECT k AS key, COUNT(DISTINCT user_hash) AS user_count, SUM(1) AS event_count ...
  GROUP BY key ORDER BY user_count DESC LIMIT n\<close> over the rows given.
\<close>

definition bq_group_counts ::
  "(EventRow \<Rightarrow> string option) \<Rightarrow> nat \<Rightarrow> EventRow list \<Rightarrow> GroupingCounts list" where
  "bq_group_counts k n rows =
     take n (by_user_count_desc
       (map (\<lambda>(kv, g). \<lparr>key = kv, user_count = length (remdups (map user_hash g)),
                         event_count = length g\<rparr>)
            (group_by k rows)))"

text \<open>\<^verbatim>\<open>DATETIME_DIFF(a, b, SECOND)\<close>: the number of boundaries of a second between \<open>b\<close> and \<open>a\<close>.\<close>

definition DATETIME_DIFF_SECOND :: "int \<Rightarrow> int \<Rightarrow> int" where
  "DATETIME_DIFF_SECOND a b = a div 1000 - b div 1000"

text \<open>The SQL of \<^verbatim>\<open>averageSessionDuration\<close>: always one row, \<^verbatim>\<open>duration\<close>.\<close>

definition bq_averageSessionDuration_sql ::
  "(string \<Rightarrow> string option) \<Rightarrow> sql_cond \<Rightarrow> EventRow list \<Rightarrow> rat option list" where
  "bq_averageSessionDuration_sql regd flt rows =
     (let per_user =
            map (\<lambda>(u, g). case (list_max (map dt g), list_min (map dt g)) of
                             (Some mx, Some mn) \<Rightarrow> DATETIME_DIFF_SECOND mx mn | _ \<Rightarrow> 0)
                (group_by user_hash (filter (sql_where regd flt) rows));
          having = filter (\<lambda>time_diff. 0 < time_diff) per_user
      in [sql_AVG having])"

definition bq_averageSessionDuration ::
  "BigQuery \<Rightarrow> BaseConfig \<Rightarrow> TimeZone \<Rightarrow> int \<Rightarrow> Entity \<Rightarrow> QueryOptions \<Rightarrow> error + int RangedResult" where
  "bq_averageSessionDuration bq config tz now app queryOptions =
     (let flt = bq_getAppFilter tz now queryOptions in
      bind_result (bq_getTable config app) (\<lambda>table.
      bind_result (bq_query bq table (bq_averageSessionDuration_sql (NET_REG_DOMAIN bq) flt))
        (\<lambda>rows. Inr (getResultWithRange queryOptions (first_rounded rows)))))"

text \<open>
  The SQL of \<^verbatim>\<open>bounceRatio\<close>: \<^verbatim>\<open>SUM(IF(count = 1,1,0)) / SUM(count)\<close> over the per-user
  counts; always one row, \<^verbatim>\<open>bounce_ratio\<close>.
\<close>

definition bq_bounceRatio_sql ::
  "(string \<Rightarrow> string option) \<Rightarrow> sql_cond \<Rightarrow> EventRow list \<Rightarrow> rat option list" where
  "bq_bounceRatio_sql regd flt rows =
     (let counts =
            map (\<lambda>(u, g). int (length g))
                (group_by user_hash (filter (sql_where regd flt) rows))
      in [sql_divide (sql_SUM (map (\<lambda>count. if count = 1 then 1 else 0) counts))
                     (sql_SUM counts)])"

definition bq_bounceRatio ::
  "BigQuery \<Rightarrow> BaseConfig \<Rightarrow> TimeZone \<Rightarrow> int \<Rightarrow> Entity \<Rightarrow> QueryOptions \<Rightarrow> error + int RangedResult" where
  "bq_bounceRatio bq config tz now app queryOptions =
     (let flt = bq_getAppFilter tz now queryOptions in
      bind_result (bq_getTable config app) (\<lambda>table.
      bind_result (bq_query bq table (bq_bounceRatio_sql (NET_REG_DOMAIN bq) flt))
        (\<lambda>rows. Inr (getResultWithRange queryOptions (first_rounded rows)))))"

text \<open>
  The SQL of \<^verbatim>\<open>pages\<close>. With a page filter, \<^verbatim>\<open>fq\<close> holds per user the \<^verbatim>\<open>MIN(dt)\<close> (for
  \<^verbatim>\<open>'ENTRY'\<close>) or the \<^verbatim>\<open>MAX(dt)\<close> of the filtered rows, and is joined with the table on
  the user and that time; the result reads the joined rows of the table only.
\<close>

definition bq_pages_sql ::
  "(string \<Rightarrow> string option) \<Rightarrow> sql_cond \<Rightarrow> nat \<Rightarrow> PageFilter option \<Rightarrow> EventRow list
     \<Rightarrow> GroupingCounts list" where
  "bq_pages_sql regd flt n pageFilter rows =
     (case pageFilter of
        None \<Rightarrow>
          bq_group_counts (\<lambda>r. sql_col r ''page_url'') n
            (filter (sql_where regd (SqlAnd flt (SqlNotEmpty ''page_url''))) rows)
      | Some pf \<Rightarrow>
          (let fq = map (\<lambda>(uh, g). (uh, (if pf = ENTRY then list_min else list_max) (map dt g)))
                        (group_by user_hash (filter (sql_where regd flt) rows));
               joined = concat (map (\<lambda>(uh, dtx).
                                   filter (\<lambda>ds. uh = user_hash ds \<and> dtx = Some (dt ds)) rows) fq)
           in bq_group_counts (\<lambda>r. sql_col r ''page_url'') n
                (filter (sql_where regd (SqlAnd flt (SqlNotEmpty ''page_url''))) joined)))"

definition bq_pages ::
  "BigQuery \<Rightarrow> BaseConfig \<Rightarrow> TimeZone \<Rightarrow> int \<Rightarrow> Entity \<Rightarrow> QueryOptions \<Rightarrow> PageFilter option
     \<Rightarrow> error + GroupingCounts list RangedResult" where
  "bq_pages bq config tz now app queryOptions pageFilter =
     (let flt = bq_getAppFilter tz now queryOptions in
      bind_result (bq_getTable config app) (\<lambda>table.
      bind_result
        (bq_query bq table (bq_pages_sql (NET_REG_DOMAIN bq) flt (limit queryOptions) pageFilter))
        (\<lambda>rows. Inr (getResultWithRange queryOptions rows))))"

subsection \<open>Document backend\<close>

text \<open>
  The two \<^verbatim>\<open>$group\<close> stages shared by the grouping pipelines, with the final \<^verbatim>\<open>$project\<close>
  and \<^verbatim>\<open>$sort\<close>: first one group per key and user, counting documents, then one group
  per key, counting the first groups and adding up their counts.
\<close>

definition mongo_group_counts ::
  "(EventRow \<Rightarrow> string option) \<Rightarrow> EventRow list \<Rightarrow> GroupingCounts list" where
  "mongo_group_counts k docs =
     (let g1 = map (\<lambda>(kid, g). (kid, length g)) (group_by (\<lambda>d. (k d, user_hash d)) docs);
          g2 = map (\<lambda>(kv, g). \<lparr>key = kv, user_count = length g,
                                 event_count = sum_list (map snd g)\<rparr>)
                   (group_by (\<lambda>(kid, c). fst kid) g1)
      in by_user_count_desc g2)"

definition simpleAppAggregation_pipeline ::
  "QueryOptions \<Rightarrow> string \<Rightarrow> bool \<Rightarrow> EventRow list \<Rightarrow> GroupingCounts list" where
  "simpleAppAggregation_pipeline queryOptions k checkExists docs =
     (let getMatch = (let match = mongo_getAppFilter queryOptions in
                      if checkExists then AList.update k MExists match else match)
      in mongo_group_counts (\<lambda>d. mongo_field d k) (filter (mongo_match getMatch) docs))"

definition simpleAppAggregation ::
  "Shell \<Rightarrow> Entity \<Rightarrow> QueryOptions \<Rightarrow> string \<Rightarrow> bool
     \<Rightarrow> error + GroupingCounts list RangedResult" where
  "simpleAppAggregation shell app queryOptions k checkExists =
     bind_result
       (runAggregation shell app (simpleAppAggregation_pipeline queryOptions k checkExists)
          (Some (limit queryOptions)))
       (\<lambda>rows. Inr (getResultWithRange queryOptions rows))"

text \<open>
  The pipeline of \<^verbatim>\<open>averageSessionDuration\<close>. \<^verbatim>\<open>$convert\<close> of a date to a decimal gives
  its milliseconds, the value of \<open>dt\<close>. The first \<^verbatim>\<open>$group\<close> names its accumulators as the source does:
  \<^verbatim>\<open>max: {$min: '$ts'}\<close> and \<^verbatim>\<open>min: {$max: '$ts'}\<close>. A \<^verbatim>\<open>$group\<close> with \<^verbatim>\<open>_id: null\<close> over
  no documents gives no document.
\<close>

definition mongo_averageSessionDuration_pipeline ::
  "QueryOptions \<Rightarrow> EventRow list \<Rightarrow> rat option list" where
  "mongo_averageSessionDuration_pipeline queryOptions docs =
     (let projected = map (\<lambda>d. (dt d, user_hash d))
                          (filter (mongo_match (mongo_getAppFilter queryOptions)) docs);
          grouped = map (\<lambda>(u, g). (list_min (map fst g), list_max (map fst g)))
                        (group_by snd projected);
          diffs = map (\<lambda>(mx, mn). case (mx, mn) of (Some a, Some b) \<Rightarrow> Some (a - b)
                                                    | _ \<Rightarrow> None) grouped;
          matched = concat (map (\<lambda>diff. case diff of Some v \<Rightarrow> (if 0 < v then [v] else [])
                                                      | None \<Rightarrow> []) diffs)
      in if matched = [] then []
         else [Some (of_int (sum_list matched) / of_nat (length matched))])"

definition mongo_averageSessionDuration ::
  "Shell \<Rightarrow> Entity \<Rightarrow> QueryOptions \<Rightarrow> error + int RangedResult" where
  "mongo_averageSessionDuration shell app queryOptions =
     bind_result
       (runAggregation shell app (mongo_averageSessionDuration_pipeline queryOptions) None)
       (\<lambda>rows. Inr (getResultWithRange queryOptions (first_rounded rows)))"

text \<open>The pipeline of \<^verbatim>\<open>bounceRatio\<close>: per user 1 or 0, then the \<^verbatim>\<open>$avg\<close> over the users.\<close>

definition mongo_bounceRatio_pipeline :: "QueryOptions \<Rightarrow> EventRow list \<Rightarrow> rat option list" where
  "mongo_bounceRatio_pipeline queryOptions docs =
     (let counts = map (\<lambda>(u, g). length g)
                       (group_by user_hash
                          (filter (mongo_match (mongo_getAppFilter queryOptions)) docs));
          bounce = map (\<lambda>count. if count = 1 then (1::int) else 0) counts
      in if bounce = [] then []
         else [Some (of_int (sum_list bounce) / of_nat (length bounce))])"

definition mongo_bounceRatio ::
  "Shell \<Rightarrow> Entity \<Rightarrow> QueryOptions \<Rightarrow> error + int RangedResult" where
  "mongo_bounceRatio shell app queryOptions =
     bind_result
       (runAggregation shell app (mongo_bounceRatio_pipeline queryOptions) None)
       (\<lambda>rows. Inr (getResultWithRange queryOptions (first_rounded rows)))"

text \<open>
  The pipelines of \<^verbatim>\<open>pages\<close>. Both match on the filter with \<^verbatim>\<open>page_url: {$exists: true}\<close>
  set and sort by \<^verbatim>\<open>dt\<close> descending. With a page filter the first \<^verbatim>\<open>$group\<close> is per user:
  \<^verbatim>\<open>$first\<close> of \<^verbatim>\<open>page_url\<close> for \<^verbatim>\<open>'ENTRY'\<close>, \<^verbatim>\<open>$last\<close> otherwise, and the count of the
  user's documents.
\<close>

definition mongo_pages_pipeline ::
  "QueryOptions \<Rightarrow> PageFilter option \<Rightarrow> EventRow list \<Rightarrow> GroupingCounts list" where
  "mongo_pages_pipeline queryOptions pageFilter docs =
     (let sorted_docs =
            sort_key (\<lambda>d. - dt d)
              (filter (mongo_match (AList.update ''page_url'' MExists
                                      (mongo_getAppFilter queryOptions))) docs)
      in case pageFilter of
           None \<Rightarrow> mongo_group_counts (\<lambda>d. mongo_field d ''page_url'') sorted_docs
         | Some pf \<Rightarrow>
             (let g1 = map (\<lambda>(u, g). ((if pf = ENTRY
                                         then (case g of [] \<Rightarrow> None
                                                | d # _ \<Rightarrow> mongo_field d ''page_url'')
                                         else (case rev g of [] \<Rightarrow> None
                                                | d # _ \<Rightarrow> mongo_field d ''page_url'')),
                                        length g))
                           (group_by user_hash sorted_docs);
                  g2 = map (\<lambda>(kv, g). \<lparr>key = kv, user_count = length g,
                                         event_count = sum_list (map snd g)\<rparr>)
                           (group_by fst g1)
              in by_user_count_desc g2))"

definition mongo_pages ::
  "Shell \<Rightarrow> Entity \<Rightarrow> QueryOptions \<Rightarrow> PageFilter option
     \<Rightarrow> error + GroupingCounts list RangedResult" where
  "mongo_pages shell app queryOptions pageFilter =
     bind_result
       (runAggregation shell app (mongo_pages_pipeline queryOptions pageFilter)
          (Some (limit queryOptions)))
       (\<lambda>rows. Inr (getResultWithRange queryOptions rows))"

definition getUTMKey :: "string \<Rightarrow> error + string" where
  "getUTMKey utmFilter =
     (if utmFilter = ''MEDIUM'' then Inr ''utm_medium''
      else if utmFilter = ''SOURCE'' then Inr ''utm_source''
      else if utmFilter = ''CAMPAIGN'' then Inr ''utm_campaign''
      else Inl (GenericError ''UTM filter provided is not currently supported'' ERROR False))"

definition mongo_utms ::
  "Shell \<Rightarrow> Entity \<Rightarrow> QueryOptions \<Rightarrow> string \<Rightarrow> error + GroupingCounts list RangedResult" where
  "mongo_utms shell app queryOptions utmFilter =
     bind_result (getUTMKey utmFilter) (\<lambda>k. simpleAppAggregation shell app queryOptions k True)"

definition mongo_countries ::
  "Shell \<Rightarrow> Entity \<Rightarrow> QueryOptions \<Rightarrow> error + GroupingCounts list RangedResult" where
  "mongo_countries shell app queryOptions =
     simpleAppAggregation shell app queryOptions ''user_country'' True"

definition mongo_eventGroups ::
  "Shell \<Rightarrow> Entity \<Rightarrow> QueryOptions \<Rightarrow> error + GroupingCounts list RangedResult" where
  "mongo_eventGroups shell app queryOptions =
     simpleAppAggregation shell app queryOptions ''event_group'' True"

definition mongo_events ::
  "Shell \<Rightarrow> Entity \<Rightarrow> QueryOptions \<Rightarrow> error + GroupingCounts list RangedResult" where
  "mongo_events shell app queryOptions =
     simpleAppAggregation shell app queryOptions ''event'' False"

definition mongo_browsers ::
  "Shell \<Rightarrow> Entity \<Rightarrow> QueryOptions \<Rightarrow> error + GroupingCounts list RangedResult" where
  "mongo_browsers shell app queryOptions =
     simpleAppAggregation shell app queryOptions ''browser_name'' False"

definition mongo_operatingSystems ::
  "Shell \<Rightarrow> Entity \<Rightarrow> QueryOptions \<Rightarrow> error + GroupingCounts list RangedResult" where
  "mongo_operatingSystems shell app queryOptions =
     simpleAppAggregation shell app queryOptions ''os_name'' False"

section \<open>A fixture\<close>

text \<open>
  One application bound to the storage unit \<open>env1\<close>, a process that runs in UTC, a window
  of two days that ended long before \<open>fixture_now\<close>, and three events at whole seconds: user \<open>A\<close> views page \<open>/a\<close> once on the first day,
  user \<open>B\<close> views \<open>/a\<close> on the first day and \<open>/b\<close> on the second. A third user \<open>C\<close> has no
  event in the window.
\<close>

definition fixture_filter_options :: FilterOptions where
  "fixture_filter_options =
     \<lparr>from_dt = 0, to_dt = 172800000, revision = None, environment = None, event = None,
      event_group = None, utm_source = None, utm_medium = None, utm_campaign = None,
      utm_term = None, utm_content = None, country = None, referrer = None,
      referrer_tld = None, page = None, mobile = None, browser = None, os = None\<rparr>"

definition fixture_options :: QueryOptions where
  "fixture_options =
     \<lparr>time_slice = ''DAY'', filter_options = fixture_filter_options, limit = 10000\<rparr>"

definition fixture_zone :: TimeZone where
  "fixture_zone = \<lparr>LocalTZA_utc = (\<lambda>t. 0), LocalTZA_local = (\<lambda>t. 0)\<rparr>"




definition fixture_now :: int where
  "fixture_now = 10000000000"

definition fixture_app :: Entity where
  "fixture_app =
     \<lparr>kind = App, entity_id = ''app1'', usageIngestEndpointEnvironmentId = Some ''env1''\<rparr>"

definition unbound_app :: Entity where
  "unbound_app = \<lparr>kind = App, entity_id = ''app2'', usageIngestEndpointEnvironmentId = None\<rparr>"

definition fixture_config :: BaseConfig where
  "fixture_config = \<lparr>getGCProjectId = ''proj'', getAnalyticsDataSetName = ''analytics''\<rparr>"

definition fixture_rows :: "EventRow list" where
  "fixture_rows =
     [\<lparr>dt = 100000, user_hash = ''A'',
       flds = [(''event'', ''page-view''), (''page_url'', ''/a''),
               (''browser_name'', ''Mobile Safari'')],
       partition_time = Some 0\<rparr>,
      \<lparr>dt = 200000, user_hash = ''B'',
       flds = [(''event'', ''page-view''), (''page_url'', ''/a''), (''browser_name'', ''Chrome''),
               (''user_country'', ''GB'')],
       partition_time = Some 0\<rparr>,
      \<lparr>dt = 86600000, user_hash = ''B'',
       flds = [(''page_url'', ''/b''), (''browser_name'', ''Chrome''), (''user_country'', ''GB'')],
       partition_time = Some 86400000\<rparr>]"

definition fixture_shell :: Shell where
  "fixture_shell name =
     (if name = ''s8_env1'' then Inr fixture_rows else Inl (ExecutionError ''ns not found''))"

definition fixture_bq :: BigQuery where
  "fixture_bq =
     \<lparr>createQueryJob = (\<lambda>table. None),
      getQueryResults = (\<lambda>table. if table = [CHR 0x60] @ ''proj.analytics.s8_env1_*'' @ [CHR 0x60]
                                   then Inr fixture_rows
                                   else Inl (ExecutionError ''Not found: Table'')),
      NET_REG_DOMAIN = (\<lambda>url. None)\<rparr>"

text \<open>The events of user \<open>B\<close> alone: page \<open>/a\<close> first, page \<open>/b\<close> a day later.\<close>

definition fixture_rows_B :: "EventRow list" where
  "fixture_rows_B = filter (\<lambda>r. user_hash r = ''B'') fixture_rows"

text \<open>A warehouse client whose \<open>createQueryJob\<close> rejects every job.\<close>

definition rejecting_bq :: BigQuery where
  "rejecting_bq = fixture_bq\<lparr>createQueryJob := (\<lambda>table. Some (ExecutionError ''invalidQuery''))\<rparr>"

text \<open>A warehouse client whose jobs are created and then fail.\<close>

definition failing_bq :: BigQuery where
  "failing_bq = fixture_bq\<lparr>getQueryResults := (\<lambda>table. Inl (ExecutionError ''backendError''))\<rparr>"

text \<open>A document store whose aggregations fail.\<close>

definition failing_shell :: Shell where
  "failing_shell name = Inl (ExecutionError ''backendError'')"

definition mobile_options :: "bool option \<Rightarrow> QueryOptions" where
  "mobile_options m = fixture_options\<lparr>filter_options := fixture_filter_options\<lparr>mobile := m\<rparr>\<rparr>"

text \<open>The first fixture row: the event of user \<open>A\<close>, sent by the browser Mobile Safari.\<close>

definition mobile_safari_row :: EventRow where
  "mobile_safari_row =
     \<lparr>dt = 100000, user_hash = ''A'',
      flds = [(''event'', ''page-view''), (''page_url'', ''/a''),
              (''browser_name'', ''Mobile Safari'')],
      partition_time = Some 0\<rparr>"

text \<open>An event of a feature phone: none of the names is one of the warehouse's five.\<close>

definition kaios_row :: EventRow where
  "kaios_row =
     \<lparr>dt = 300000, user_hash = ''D'',
      flds = [(''browser_name'', ''Firefox''), (''device_name'', ''Nokia 8110''),
              (''os_name'', ''KaiOS'')],
      partition_time = Some 0\<rparr>"



definition fixture_options_week :: QueryOptions where
  "fixture_options_week = fixture_options\<lparr>time_slice := ''WEEK''\<rparr>"

section \<open>Theorems\<close>

text \<open>
  C9. In both backends \<open>getFormatForTimeSlice\<close> maps exactly the five slices YEAR, MONTH,
  DAY, HOUR and MINUTE to a format (year; year-month; year-month-day; with the padded
  hour; with the padded hour and minute), the two backends agree on every input, and
  every other slice raises the "Unsupported time slice" error: there is no default.
\<close>

theorem getFormatForTimeSlice_exhaustive:
  "bq_getFormatForTimeSlice options = mongo_getFormatForTimeSlice options
   \<and> (time_slice options = ''YEAR'' \<longrightarrow> mongo_getFormatForTimeSlice options = Inr ''%Y'')
   \<and> (time_slice options = ''MONTH'' \<longrightarrow> mongo_getFormatForTimeSlice options = Inr ''%Y-%m'')
   \<and> (time_slice options = ''DAY'' \<longrightarrow> mongo_getFormatForTimeSlice options = Inr ''%Y-%m-%d'')
   \<and> (time_slice options = ''HOUR'' \<longrightarrow>
        mongo_getFormatForTimeSlice options = Inr ''%Y-%m-%d %H:00:00'')
   \<and> (time_slice options = ''MINUTE'' \<longrightarrow>
        mongo_getFormatForTimeSlice options = Inr ''%Y-%m-%d %H:%M:00'')
   \<and> (time_slice options \<notin> {''YEAR'', ''MONTH'', ''DAY'', ''HOUR'', ''MINUTE''} \<longrightarrow>
        mongo_getFormatForTimeSlice options
          = Inl (GenericError (''Unsupported time slice '' @ time_slice options) DEBUG True))"
  by (simp add: bq_getFormatForTimeSlice_def mongo_getFormatForTimeSlice_def)

theorem getFormatForTimeSlice_exhaustive_witness:
  "mongo_getFormatForTimeSlice fixture_options = Inr ''%Y-%m-%d''
   \<and> bq_getFormatForTimeSlice fixture_options = Inr ''%Y-%m-%d''
   \<and> mongo_getFormatForTimeSlice fixture_options_week
       = Inl (GenericError ''Unsupported time slice WEEK'' DEBUG True)
   \<and> bq_getFormatForTimeSlice fixture_options_week
       = Inl (GenericError ''Unsupported time slice WEEK'' DEBUG True)"
  using getFormatForTimeSlice_exhaustive [of fixture_options]
    getFormatForTimeSlice_exhaustive [of fixture_options_week]
  by (simp add: fixture_options_def fixture_options_week_def)

subsection \<open>Session duration\<close>

lemma fold_min_le: "fold min xs (x::int) \<le> x"
proof (induction xs arbitrary: x)
  case Nil
  show ?case by simp
next
  case (Cons y ys)
  have "fold min ys (min y x) \<le> min y x" by (rule Cons.IH)
  then show ?case by simp
qed

lemma le_fold_max: "(x::int) \<le> fold max xs x"
proof (induction xs arbitrary: x)
  case Nil
  show ?case by simp
next
  case (Cons y ys)
  have "max y x \<le> fold max ys (max y x)" by (rule Cons.IH)
  then show ?case by simp
qed

lemma list_min_le_list_max:
  assumes "list_min xs = Some a" and "list_max xs = Some b"
  shows "a \<le> b"
proof (cases xs)
  case Nil
  with assms show ?thesis by simp
next
  case (Cons x ys)
  with assms have "a = fold min ys x" and "b = fold max ys x" by simp_all
  moreover have "fold min ys x \<le> x" by (rule fold_min_le)
  moreover have "x \<le> fold max ys x" by (rule le_fold_max)
  ultimately show ?thesis by linarith
qed

text \<open>The least time stamp minus the greatest is never positive, so \<^verbatim>\<open>$match: {diff: {$gt: 0}}\<close>
  keeps no user.\<close>

lemma session_diff_not_positive:
  "(case (case (list_min ys, list_max ys) of (Some a, Some b) \<Rightarrow> Some (a - b) | _ \<Rightarrow> None) of
      Some v \<Rightarrow> (if (0::int) < v then [v] else []) | None \<Rightarrow> []) = []"
proof (cases "list_min ys")
  case None
  then show ?thesis by simp
next
  case a: (Some a)
  show ?thesis
  proof (cases "list_max ys")
    case None
    with a show ?thesis by simp
  next
    case b: (Some b)
    have "a \<le> b" using a b by (rule list_min_le_list_max)
    with a b show ?thesis by simp
  qed
qed

lemma mongo_session_matched_empty:
  "concat (map (\<lambda>diff. case diff of Some v \<Rightarrow> (if (0::int) < v then [v] else []) | None \<Rightarrow> [])
     (map (\<lambda>(mx, mn). case (mx, mn) of (Some a, Some b) \<Rightarrow> Some (a - b) | _ \<Rightarrow> None)
        (map (\<lambda>(u, g). (list_min (map fst g), list_max (map fst g))) groups))) = []"
proof (induction groups)
  case Nil
  show ?case by simp
next
  case (Cons p ps)
  obtain u g where p: "p = (u, g)" by (cases p)
  show ?case using Cons.IH session_diff_not_positive [of "map fst g"]
    by (simp add: p)
qed

lemma mongo_averageSessionDuration_pipeline_empty:
  "mongo_averageSessionDuration_pipeline queryOptions docs = []"
  unfolding mongo_averageSessionDuration_pipeline_def Let_def
  by (simp only: mongo_session_matched_empty refl if_True)

lemma runAggregation_never_raises: "\<exists>rows. runAggregation shell entity pipeline lmt = Inr rows"
  by (auto simp: runAggregation_def try_catch_def bind_result_def split: sum.splits)

text \<open>
  C3. The claim asks of both backends the rounded mean, in seconds, of the positive
  per-user differences between the latest and the earliest time stamp. The document
  backend computes \<^verbatim>\<open>max\<close> with \<^verbatim>\<open>$min\<close> and \<^verbatim>\<open>min\<close> with \<^verbatim>\<open>$max\<close>, so no difference is
  positive and \<open>averageSessionDuration\<close> is 0 for every store, entity and options; on the
  fixture, where user \<open>B\<close> has two events a day apart, the warehouse backend returns 86400
  and the document backend 0.
\<close>

theorem mongo_averageSessionDuration_always_zero:
  "mongo_averageSessionDuration shell app queryOptions = Inr (getResultWithRange queryOptions 0)
   \<and> mongo_averageSessionDuration fixture_shell fixture_app fixture_options
       = Inr \<lparr>result = 0, range_from = 0, range_to = 172800000\<rparr>
   \<and> bq_averageSessionDuration fixture_bq fixture_config fixture_zone fixture_now fixture_app fixture_options
       = Inr \<lparr>result = 86400, range_from = 0, range_to = 172800000\<rparr>"
proof -
  have rows: "\<And>sh a q. runAggregation sh a (mongo_averageSessionDuration_pipeline q) None = Inr []"
    by (auto simp: runAggregation_def try_catch_def bind_result_def
          mongo_averageSessionDuration_pipeline_empty split: sum.splits)
  have zero: "\<And>sh a q. mongo_averageSessionDuration sh a q = Inr (getResultWithRange q 0)"
    by (simp add: rows mongo_averageSessionDuration_def bind_result_def first_rounded_def)
  have fx: "getResultWithRange fixture_options (0::int)
              = \<lparr>result = 0, range_from = 0, range_to = 172800000\<rparr>"
    by (simp add: getResultWithRange_def fixture_options_def fixture_filter_options_def)
  have bq: "bq_averageSessionDuration fixture_bq fixture_config fixture_zone fixture_now fixture_app
              fixture_options = Inr \<lparr>result = 86400, range_from = 0, range_to = 172800000\<rparr>"
    by code_simp
  show ?thesis using zero fx bq by simp
qed

subsection \<open>Bounce ratio\<close>

text \<open>
  C2. The claim asks of both backends the rounded quotient of the users with exactly one
  event by the users with an event, which is 1 for the fixture (\<open>A\<close> has one event, \<open>B\<close>
  two, \<open>C\<close> none). The document backend returns 1. The warehouse backend divides by
  \<^verbatim>\<open>SUM(count)\<close>, the number of events, and returns the rounding of 1/3, which is 0.
\<close>

theorem bq_bounceRatio_divides_by_events:
  "bq_bounceRatio fixture_bq fixture_config fixture_zone fixture_now fixture_app fixture_options
     = Inr \<lparr>result = 0, range_from = 0, range_to = 172800000\<rparr>
   \<and> bq_bounceRatio_sql (NET_REG_DOMAIN fixture_bq)
         (bq_getAppFilter fixture_zone fixture_now fixture_options) fixture_rows = [Some (1 / 3)]
   \<and> mongo_bounceRatio_pipeline fixture_options fixture_rows = [Some (1 / 2)]
   \<and> mongo_bounceRatio fixture_shell fixture_app fixture_options
     = Inr \<lparr>result = 1, range_from = 0, range_to = 172800000\<rparr>"
  by code_simp

subsection \<open>Entry and exit pages\<close>

text \<open>
  C4. The claim asks that \<open>pages('ENTRY')\<close> attributes a user to the page of the earliest
  event, in both backends. User \<open>B\<close> views \<open>/a\<close> at time 200 and \<open>/b\<close> at time 86600. The
  warehouse backend attributes \<open>B\<close> to \<open>/a\<close> under \<open>ENTRY\<close> and to \<open>/b\<close> under \<open>EXIT\<close>. The
  document backend sorts by \<open>dt\<close> descending and takes \<^verbatim>\<open>$first\<close> for \<open>ENTRY\<close>: it attributes
  \<open>B\<close> to \<open>/b\<close> under \<open>ENTRY\<close> and to \<open>/a\<close> under \<open>EXIT\<close>.
\<close>

theorem mongo_pages_entry_takes_latest:
  "mongo_pages_pipeline fixture_options (Some ENTRY) fixture_rows_B
     = [\<lparr>key = Some ''/b'', user_count = 1, event_count = 2\<rparr>]
   \<and> mongo_pages_pipeline fixture_options (Some EXIT) fixture_rows_B
     = [\<lparr>key = Some ''/a'', user_count = 1, event_count = 2\<rparr>]
   \<and> bq_pages_sql (NET_REG_DOMAIN fixture_bq) (bq_getAppFilter fixture_zone fixture_now fixture_options)
        (limit fixture_options) (Some ENTRY) fixture_rows_B
     = [\<lparr>key = Some ''/a'', user_count = 1, event_count = 1\<rparr>]
   \<and> bq_pages_sql (NET_REG_DOMAIN fixture_bq) (bq_getAppFilter fixture_zone fixture_now fixture_options)
        (limit fixture_options) (Some EXIT) fixture_rows_B
     = [\<lparr>key = Some ''/b'', user_count = 1, event_count = 1\<rparr>]"
  by code_simp

subsection \<open>The two backends against each other\<close>

text \<open>
  C1. The claim asks that every metric operation returns the same rows from both backends
  on the same data. On the fixture, with the same rows in the table and in the
  collection, \<open>bounceRatio\<close>, \<open>averageSessionDuration\<close>, \<open>pages('ENTRY')\<close> and
  \<open>pages('EXIT')\<close> all differ between the two backends.
\<close>

theorem backends_disagree_on_fixture:
  "bq_bounceRatio fixture_bq fixture_config fixture_zone fixture_now fixture_app fixture_options
     \<noteq> mongo_bounceRatio fixture_shell fixture_app fixture_options
   \<and> bq_averageSessionDuration fixture_bq fixture_config fixture_zone fixture_now fixture_app fixture_options
     \<noteq> mongo_averageSessionDuration fixture_shell fixture_app fixture_options
   \<and> bq_pages fixture_bq fixture_config fixture_zone fixture_now fixture_app fixture_options (Some ENTRY)
     \<noteq> mongo_pages fixture_shell fixture_app fixture_options (Some ENTRY)
   \<and> bq_pages fixture_bq fixture_config fixture_zone fixture_now fixture_app fixture_options (Some EXIT)
     \<noteq> mongo_pages fixture_shell fixture_app fixture_options (Some EXIT)"
  by code_simp

subsection \<open>Failures\<close>

text \<open>
  C7. The claim asks that a failing query gives an empty result and never an exception,
  while a missing usage binding raises. In the warehouse backend \<^verbatim>\<open>createQueryJob\<close> is
  awaited before the \<^verbatim>\<open>try\<close>: when the job is rejected, the error reaches the caller of
  \<open>bounceRatio\<close>, \<open>averageSessionDuration\<close> and \<open>pages\<close>. A job that fails later, and a
  failing aggregation of the document backend, give the empty result. An entity without
  a usage binding raises in the warehouse backend and gives the empty result in the
  document backend.
\<close>

theorem bq_createQueryJob_error_propagates:
  "bq_bounceRatio rejecting_bq fixture_config fixture_zone fixture_now fixture_app fixture_options
     = Inl (ExecutionError ''invalidQuery'')
   \<and> bq_averageSessionDuration rejecting_bq fixture_config fixture_zone fixture_now fixture_app fixture_options
     = Inl (ExecutionError ''invalidQuery'')
   \<and> bq_pages rejecting_bq fixture_config fixture_zone fixture_now fixture_app fixture_options None
     = Inl (ExecutionError ''invalidQuery'')
   \<and> bq_pages failing_bq fixture_config fixture_zone fixture_now fixture_app fixture_options None
     = Inr \<lparr>result = [], range_from = 0, range_to = 172800000\<rparr>
   \<and> mongo_pages failing_shell fixture_app fixture_options None
     = Inr \<lparr>result = [], range_from = 0, range_to = 172800000\<rparr>
   \<and> bq_averageSessionDuration fixture_bq fixture_config fixture_zone fixture_now unbound_app fixture_options
     = Inl (GenericError ''Unable to find usage endpoint for App: app2'' ERROR False)
   \<and> mongo_averageSessionDuration fixture_shell unbound_app fixture_options
     = Inr \<lparr>result = 0, range_from = 0, range_to = 172800000\<rparr>"
  by code_simp

text \<open>
  C8. The claim asks that an entity without a usage binding makes the resolution of its
  table or collection fail fatally, with no empty result returned. Both resolvers raise,
  and the warehouse operations pass the error on. In the document backend
  \<^verbatim>\<open>getCollection\<close> is called inside the \<^verbatim>\<open>try\<close> of \<^verbatim>\<open>runAggregation\<close>: the error is caught and
  every operation returns its empty result (0 for the two scalar metrics).
\<close>

theorem mongo_missing_binding_gives_empty_result:
  "mongo_getCollection fixture_app = Inr ''s8_env1''
   \<and> bq_getTable fixture_config fixture_app
     = Inr ([CHR 0x60] @ ''proj.analytics.s8_env1_*'' @ [CHR 0x60])
   \<and> mongo_getCollection unbound_app
     = Inl (GenericError ''Unable to find usage endpoint for App: app2'' ERROR False)
   \<and> bq_getTable fixture_config unbound_app
     = Inl (GenericError ''Unable to find usage endpoint for App: app2'' ERROR False)
   \<and> bq_pages fixture_bq fixture_config fixture_zone fixture_now unbound_app fixture_options None
     = Inl (GenericError ''Unable to find usage endpoint for App: app2'' ERROR False)
   \<and> mongo_pages fixture_shell unbound_app fixture_options None
     = Inr \<lparr>result = [], range_from = 0, range_to = 172800000\<rparr>
   \<and> mongo_events fixture_shell unbound_app fixture_options
     = Inr \<lparr>result = [], range_from = 0, range_to = 172800000\<rparr>
   \<and> mongo_bounceRatio fixture_shell unbound_app fixture_options
     = Inr \<lparr>result = 0, range_from = 0, range_to = 172800000\<rparr>"
  by code_simp

subsection \<open>The filters of the warehouse backend\<close>

lemma sql_where_And: "sql_where regd (SqlAnd a b) r = (sql_where regd a r \<and> sql_where regd b r)"
  by (auto simp: sql_where_def sql_and_def)

lemma sql_where_bq_reduce_step:
  "sql_where regd (bq_reduce_step a c) r
     = (sql_where regd a r \<and> (\<forall>w. c = Some w \<longrightarrow> sql_where regd w r))"
  by (cases c) (simp_all add: bq_reduce_step_def sql_where_And)

lemma sql_where_foldl_bq_reduce_step:
  "sql_where regd (foldl bq_reduce_step init cs) r
     = (sql_where regd init r \<and> (\<forall>w. Some w \<in> set cs \<longrightarrow> sql_where regd w r))"
proof (induction cs arbitrary: init)
  case Nil
  show ?case by simp
next
  case (Cons c cs)
  have "sql_where regd (foldl bq_reduce_step init (c # cs)) r
          = sql_where regd (foldl bq_reduce_step (bq_reduce_step init c) cs) r"
    by simp
  also have "\<dots> = (sql_where regd (bq_reduce_step init c) r
                     \<and> (\<forall>w. Some w \<in> set cs \<longrightarrow> sql_where regd w r))"
    by (rule Cons.IH)
  also have "\<dots> = (sql_where regd init r
                     \<and> (\<forall>w. Some w \<in> set (c # cs) \<longrightarrow> sql_where regd w r))"
    by (auto simp: sql_where_bq_reduce_step)
  finally show ?case .
qed

lemma sql_where_bq_reduce:
  "sql_where regd (bq_reduce init cs) r
     = (sql_where regd init r \<and> (\<forall>w. Some w \<in> set cs \<longrightarrow> sql_where regd w r))"
  by (simp only: bq_reduce_def sql_where_foldl_bq_reduce_step)




subsection \<open>The filters of the document backend\<close>

lemma distinct_assign: "distinct (map fst a) \<Longrightarrow> distinct (map fst (assign a ob))"
  unfolding assign_def
proof (induction ob arbitrary: a)
  case Nil
  then show ?case by simp
next
  case (Cons e ob)
  obtain k v where e: "e = (k, v)" by (cases e)
  have "distinct (map fst (AList.update k v a))"
    using Cons.prems by (rule distinct_update)
  then have "distinct (map fst (fold (\<lambda>(k, v). AList.update k v) ob (AList.update k v a)))"
    by (rule Cons.IH)
  then show ?case by (simp add: e)
qed

lemma distinct_mongo_reduce_step:
  "distinct (map fst a) \<Longrightarrow> distinct (map fst (mongo_reduce_step a c))"
  by (cases c) (simp_all add: mongo_reduce_step_def distinct_assign)

lemma distinct_foldl_mongo_reduce_step:
  "distinct (map fst a) \<Longrightarrow> distinct (map fst (foldl mongo_reduce_step a cs))"
proof (induction cs arbitrary: a)
  case Nil
  then show ?case by simp
next
  case (Cons c cs)
  have "distinct (map fst (mongo_reduce_step a c))"
    using Cons.prems by (rule distinct_mongo_reduce_step)
  then have "distinct (map fst (foldl mongo_reduce_step (mongo_reduce_step a c) cs))"
    by (rule Cons.IH)
  then show ?case by simp
qed

lemma distinct_mongo_reduce: "distinct (map fst (mongo_reduce cs))"
  unfolding mongo_reduce_def by (rule distinct_foldl_mongo_reduce_step) simp

lemma mongo_match_map_of:
  assumes "distinct (map fst f)"
  shows "mongo_match f d = (\<forall>k c. map_of f k = Some c \<longrightarrow> mongo_holds d (k, c))"
  using assms by (auto simp: mongo_match_def list_all_iff)

lemma map_of_assign: "map_of (assign a ob) = map_of a ++ map_of (rev ob)"
  unfolding assign_def
proof (induction ob arbitrary: a)
  case Nil
  show ?case by simp
next
  case (Cons e ob)
  obtain k v where e: "e = (k, v)" by (cases e)
  have "map_of (fold (\<lambda>(k, v). AList.update k v) (e # ob) a)
          = map_of (AList.update k v a) ++ map_of (rev ob)"
    by (simp add: e Cons.IH)
  also have "\<dots> = map_of a ++ map_of (rev (e # ob))"
    by (auto simp: e update_conv' fun_eq_iff map_add_def split: option.splits)
  finally show ?case .
qed

lemma mongo_reduce_step_cong:
  "map_of a k = map_of b k \<Longrightarrow>
   map_of (mongo_reduce_step a c) k = map_of (mongo_reduce_step b c) k"
  by (cases c) (auto simp: mongo_reduce_step_def map_of_assign map_add_def split: option.splits)

lemma step_string_filter:
  "map_of (mongo_reduce_step a (getFilterObjectFromStringFilterOption v key')) k
     = (if k = key' then (case v of None \<Rightarrow> map_of a k | Some x \<Rightarrow> Some (MEqual x))
        else map_of a k)"
  by (cases v)
     (simp_all add: mongo_reduce_step_def getFilterObjectFromStringFilterOption_def assign_def
        update_conv')

lemma step_mobile:
  "map_of (mongo_reduce_step a (mongo_getMobile qo)) k
     = (if k = ''$or'' \<and> mobile (filter_options qo) = Some True then Some (MOr getAsMobileFilter)
        else if k = ''$nor'' \<and> mobile (filter_options qo) = Some False
        then Some (MNor getAsMobileFilter)
        else map_of a k)"
  by (cases "mobile (filter_options qo)")
     (simp_all add: mongo_reduce_step_def mongo_getMobile_def assign_def update_conv')

lemma step_range:
  "map_of (mongo_reduce_step a (Some (mongo_getRange qo))) k
     = (if k = ''dt''
        then Some (MDtRange (from_dt (filter_options qo)) (to_dt (filter_options qo)))
        else map_of a k)"
  by (simp add: mongo_reduce_step_def mongo_getRange_def assign_def update_conv'
        getRangeFromAsDate_def getRangeToAsDate_def)

lemmas step_lookups = step_string_filter step_mobile step_range



lemma mongo_getAppFilter_or:
  "map_of (mongo_getAppFilter qo) ''$or''
     = (if mobile (filter_options qo) = Some True then Some (MOr getAsMobileFilter) else None)"
  by (simp add: mongo_getAppFilter_def mongo_reduce_def Let_def step_lookups)

lemma mongo_getAppFilter_nor:
  "map_of (mongo_getAppFilter qo) ''$nor''
     = (if mobile (filter_options qo) = Some False then Some (MNor getAsMobileFilter) else None)"
  by (simp add: mongo_getAppFilter_def mongo_reduce_def Let_def step_lookups)

lemma mongo_getAppFilter_other:
  assumes "k \<noteq> ''$or''" and "k \<noteq> ''$nor''"
  shows "map_of (mongo_getAppFilter (qo\<lparr>filter_options := (filter_options qo)\<lparr>mobile := m\<rparr>\<rparr>)) k
           = map_of (mongo_getAppFilter qo) k"
proof -
  let ?fo = "filter_options qo"
  let ?qo' = "qo\<lparr>filter_options := ?fo\<lparr>mobile := m\<rparr>\<rparr>"
  define pre where "pre = foldl mongo_reduce_step []
        [Some (mongo_getRange qo),
         getFilterObjectFromStringFilterOption (revision ?fo) ''revision_id'',
         getFilterObjectFromStringFilterOption (environment ?fo) ''environment_id'',
         getFilterObjectFromStringFilterOption (event ?fo) ''event'',
         getFilterObjectFromStringFilterOption (event_group ?fo) ''event_group'',
         getFilterObjectFromStringFilterOption (utm_source ?fo) ''utm_source'',
         getFilterObjectFromStringFilterOption (utm_medium ?fo) ''utm_medium'',
         getFilterObjectFromStringFilterOption (utm_campaign ?fo) ''utm_campaign'',
         getFilterObjectFromStringFilterOption (utm_term ?fo) ''utm_term'',
         getFilterObjectFromStringFilterOption (utm_content ?fo) ''utm_content'',
         getFilterObjectFromStringFilterOption (country ?fo) ''user_country'',
         getFilterObjectFromStringFilterOption (page ?fo) ''page_url'',
         getFilterObjectFromStringFilterOption (referrer ?fo) ''referrer_url'',
         getFilterObjectFromStringFilterOption (referrer_tld ?fo) ''referrer_url'']"
  have f: "mongo_getAppFilter qo
             = foldl mongo_reduce_step pre
                 [mongo_getMobile qo,
                  getFilterObjectFromStringFilterOption (browser ?fo) ''browser_name'',
                  getFilterObjectFromStringFilterOption (os ?fo) ''os_name'']"
    by (simp add: mongo_getAppFilter_def mongo_reduce_def Let_def pre_def)
  have range: "mongo_getRange ?qo' = mongo_getRange qo"
    by (simp add: mongo_getRange_def getRangeFromAsDate_def getRangeToAsDate_def)
  have f': "mongo_getAppFilter ?qo'
             = foldl mongo_reduce_step pre
                 [mongo_getMobile ?qo',
                  getFilterObjectFromStringFilterOption (browser ?fo) ''browser_name'',
                  getFilterObjectFromStringFilterOption (os ?fo) ''os_name'']"
    by (simp add: mongo_getAppFilter_def mongo_reduce_def Let_def pre_def range)
  have base: "map_of (mongo_reduce_step pre (mongo_getMobile ?qo')) k
                = map_of (mongo_reduce_step pre (mongo_getMobile qo)) k"
    using assms by (simp add: step_mobile)
  show ?thesis
    unfolding f f' foldl.simps
    by (intro mongo_reduce_step_cong base)
qed

subsection \<open>The time range and the partition window\<close>

lemma mongo_field_partition_time [simp]:
  "mongo_field (r\<lparr>partition_time := p\<rparr>) = mongo_field r"
  by (simp add: mongo_field_def col_def fun_eq_iff)

lemma regex_test_partition_time [simp]:
  "regex_test (r\<lparr>partition_time := p\<rparr>) = regex_test r"
  by (simp add: regex_test_def fun_eq_iff)










subsection \<open>The mobile flag\<close>

lemma bq_MOBILE_TEST_true:
  "(sql_eval regd bq_MOBILE_TEST r = Some True) =
     ((case sql_col r ''browser_name'' of None \<Rightarrow> False | Some b \<Rightarrow> 0 < INSTR b ''Mobile'')
      \<or> sql_col r ''device_name'' = Some ''iPhone'' \<or> sql_col r ''device_name'' = Some ''iPad''
      \<or> sql_col r ''os_name'' = Some ''iOS'' \<or> sql_col r ''os_name'' = Some ''Android'')"
  by (cases "sql_col r ''browser_name''"; cases "sql_col r ''device_name''";
      cases "sql_col r ''os_name''")
     (auto simp: bq_MOBILE_TEST_def sql_or_def)

lemma bq_MOBILE_TEST_false:
  "(sql_eval regd bq_MOBILE_TEST r = Some False) =
     ((case sql_col r ''browser_name'' of None \<Rightarrow> False | Some b \<Rightarrow> INSTR b ''Mobile'' = 0)
      \<and> (case sql_col r ''device_name'' of None \<Rightarrow> False
          | Some d \<Rightarrow> d \<noteq> ''iPhone'' \<and> d \<noteq> ''iPad'')
      \<and> (case sql_col r ''os_name'' of None \<Rightarrow> False
          | Some s \<Rightarrow> s \<noteq> ''iOS'' \<and> s \<noteq> ''Android''))"
  by (cases "sql_col r ''browser_name''"; cases "sql_col r ''device_name''";
      cases "sql_col r ''os_name''")
     (auto simp: bq_MOBILE_TEST_def sql_or_def)

lemma mongo_MOBILE_TEST_meaning:
  "list_ex (regex_test r) getAsMobileFilter =
     ((case mongo_field r ''browser_name'' of None \<Rightarrow> False | Some b \<Rightarrow> regex_i ''mobile'' b)
      \<or> (case mongo_field r ''device_name'' of None \<Rightarrow> False | Some d \<Rightarrow> regex_i ''iphone'' d)
      \<or> (case mongo_field r ''device_name'' of None \<Rightarrow> False | Some d \<Rightarrow> regex_i ''ipad'' d)
      \<or> (case mongo_field r ''os_name'' of None \<Rightarrow> False | Some s \<Rightarrow> regex_i ''ios'' s)
      \<or> (case mongo_field r ''os_name'' of None \<Rightarrow> False | Some s \<Rightarrow> regex_i ''android'' s))"
  by (simp add: getAsMobileFilter_def mongo_MOBILE_TEST_def regex_test_def cong: option.case_cong)

lemma bq_getAppFilter_mobile:
  "sql_where regd (bq_getAppFilter tz now qo) r
     = (sql_where regd
          (bq_getAppFilter tz now (qo\<lparr>filter_options := (filter_options qo)\<lparr>mobile := None\<rparr>\<rparr>)) r
        \<and> (case mobile (filter_options qo) of None \<Rightarrow> True
           | Some b \<Rightarrow> sql_eval regd bq_MOBILE_TEST r = Some b))"
proof -
  let ?fo = "filter_options qo"
  let ?qo' = "qo\<lparr>filter_options := ?fo\<lparr>mobile := None\<rparr>\<rparr>"
  define pre where "pre =
        [map_option (SqlEq ''revision_id'') (revision ?fo),
         map_option (SqlEq ''environment_id'') (environment ?fo),
         map_option (SqlEq ''event'') (event ?fo),
         map_option (SqlEq ''event_group'') (event_group ?fo),
         map_option (SqlEq ''utm_source'') (utm_source ?fo),
         map_option (SqlEq ''utm_medium'') (utm_medium ?fo),
         map_option (SqlEq ''utm_campaign'') (utm_campaign ?fo),
         map_option (SqlEq ''utm_term'') (utm_term ?fo),
         map_option (SqlEq ''utm_content'') (utm_content ?fo),
         map_option (SqlEq ''user_country'') (country ?fo),
         map_option (SqlLike ''page_url'') (page ?fo),
         map_option (SqlLike ''referrer_url'') (referrer ?fo),
         map_option SqlRegDomainEq (referrer_tld ?fo)]"
  define post where "post =
        [map_option (SqlEq ''browser_name'') (browser ?fo),
         map_option (SqlEq ''os_name'') (os ?fo)]"
  have range: "generateRange tz now ?qo' = generateRange tz now qo"
    by (simp add: generateRange_def includeBuffer_def getRangeFrom_def getRangeTo_def
          getPartitionWindowFrom_def getPartitionWindowTo_def)
  have f: "bq_getAppFilter tz now qo
             = bq_reduce (generateRange tz now qo) (pre @ bq_getMobile qo # post)"
    by (simp add: bq_getAppFilter_def Let_def pre_def post_def)
  have f': "bq_getAppFilter tz now ?qo'
             = bq_reduce (generateRange tz now qo) (pre @ None # post)"
    by (simp add: bq_getAppFilter_def Let_def pre_def post_def range bq_getMobile_def)
  have m: "(\<forall>w. bq_getMobile qo = Some w \<longrightarrow> sql_where regd w r)
             = (case mobile ?fo of None \<Rightarrow> True
                | Some b \<Rightarrow> sql_eval regd bq_MOBILE_TEST r = Some b)"
    by (cases "mobile ?fo") (auto simp: bq_getMobile_def sql_where_def split: bool.splits)
  have "sql_where regd (bq_getAppFilter tz now qo) r
          = (sql_where regd (bq_getAppFilter tz now ?qo') r
             \<and> (\<forall>w. bq_getMobile qo = Some w \<longrightarrow> sql_where regd w r))"
    unfolding f f' sql_where_bq_reduce by auto
  then show ?thesis by (simp only: m)
qed

lemma all_keys_split:
  "(\<forall>k c. m k = Some c \<longrightarrow> P k c)
     = ((\<forall>c. m a = Some c \<longrightarrow> P a c) \<and> (\<forall>c. m b = Some c \<longrightarrow> P b c)
        \<and> (\<forall>k c. k \<noteq> a \<longrightarrow> k \<noteq> b \<longrightarrow> m k = Some c \<longrightarrow> P k c))"
proof
  assume "\<forall>k c. m k = Some c \<longrightarrow> P k c"
  then show "(\<forall>c. m a = Some c \<longrightarrow> P a c) \<and> (\<forall>c. m b = Some c \<longrightarrow> P b c)
        \<and> (\<forall>k c. k \<noteq> a \<longrightarrow> k \<noteq> b \<longrightarrow> m k = Some c \<longrightarrow> P k c)"
    by simp
next
  assume h: "(\<forall>c. m a = Some c \<longrightarrow> P a c) \<and> (\<forall>c. m b = Some c \<longrightarrow> P b c)
        \<and> (\<forall>k c. k \<noteq> a \<longrightarrow> k \<noteq> b \<longrightarrow> m k = Some c \<longrightarrow> P k c)"
  show "\<forall>k c. m k = Some c \<longrightarrow> P k c"
  proof (intro allI impI)
    fix k c
    assume s: "m k = Some c"
    show "P k c"
    proof (cases "k = a")
      case True
      with h s show ?thesis by simp
    next
      case na: False
      show ?thesis
      proof (cases "k = b")
        case True
        with h s show ?thesis by simp
      next
        case False
        with na h s show ?thesis by simp
      qed
    qed
  qed
qed

lemma all_other_keys:
  assumes "\<And>k. k \<noteq> a \<Longrightarrow> k \<noteq> b \<Longrightarrow> m' k = m k" and "m' a = None" and "m' b = None"
  shows "(\<forall>k c. k \<noteq> a \<longrightarrow> k \<noteq> b \<longrightarrow> m k = Some c \<longrightarrow> P k c)
           = (\<forall>k c. m' k = Some c \<longrightarrow> P k c)"
proof (intro iffI allI impI)
  fix k c
  assume h: "\<forall>k c. k \<noteq> a \<longrightarrow> k \<noteq> b \<longrightarrow> m k = Some c \<longrightarrow> P k c" and s: "m' k = Some c"
  from s assms(2) have ka: "k \<noteq> a" by auto
  from s assms(3) have kb: "k \<noteq> b" by auto
  from assms(1) [OF ka kb] s have "m k = Some c" by simp
  with h ka kb show "P k c" by blast
next
  fix k c
  assume h: "\<forall>k c. m' k = Some c \<longrightarrow> P k c" and ka: "k \<noteq> a" and kb: "k \<noteq> b"
    and s: "m k = Some c"
  from assms(1) [OF ka kb] s have "m' k = Some c" by simp
  with h show "P k c" by blast
qed

lemma mongo_getAppFilter_mobile:
  "mongo_match (mongo_getAppFilter qo) r
     = (mongo_match
          (mongo_getAppFilter (qo\<lparr>filter_options := (filter_options qo)\<lparr>mobile := None\<rparr>\<rparr>)) r
        \<and> (case mobile (filter_options qo) of None \<Rightarrow> True
           | Some b \<Rightarrow> list_ex (regex_test r) getAsMobileFilter = b))"
proof -
  let ?qo' = "qo\<lparr>filter_options := (filter_options qo)\<lparr>mobile := None\<rparr>\<rparr>"
  let ?m = "map_of (mongo_getAppFilter qo)"
  let ?m' = "map_of (mongo_getAppFilter ?qo')"
  let ?H = "\<lambda>k c. mongo_holds r (k, c)"
  have d: "distinct (map fst (mongo_getAppFilter qo))"
    by (simp add: mongo_getAppFilter_def Let_def distinct_mongo_reduce)
  have d': "distinct (map fst (mongo_getAppFilter ?qo'))"
    by (simp add: mongo_getAppFilter_def Let_def distinct_mongo_reduce)
  have other: "\<And>k. k \<noteq> ''$or'' \<Longrightarrow> k \<noteq> ''$nor'' \<Longrightarrow> ?m' k = ?m k"
    by (rule mongo_getAppFilter_other)
  have or': "?m' ''$or'' = None"
    by (simp add: mongo_getAppFilter_or)
  have nor': "?m' ''$nor'' = None"
    by (simp add: mongo_getAppFilter_nor)
  have or: "?m ''$or'' = (if mobile (filter_options qo) = Some True
                           then Some (MOr getAsMobileFilter) else None)"
    by (rule mongo_getAppFilter_or)
  have nor: "?m ''$nor'' = (if mobile (filter_options qo) = Some False
                             then Some (MNor getAsMobileFilter) else None)"
    by (rule mongo_getAppFilter_nor)
  have rest: "(\<forall>k c. k \<noteq> ''$or'' \<longrightarrow> k \<noteq> ''$nor'' \<longrightarrow> ?m k = Some c \<longrightarrow> ?H k c)
                = (\<forall>k c. ?m' k = Some c \<longrightarrow> ?H k c)"
    using other or' nor' by (rule all_other_keys)
  have "mongo_match (mongo_getAppFilter qo) r = (\<forall>k c. ?m k = Some c \<longrightarrow> ?H k c)"
    using d by (rule mongo_match_map_of)
  also have "\<dots> = ((\<forall>c. ?m ''$or'' = Some c \<longrightarrow> ?H ''$or'' c)
                    \<and> (\<forall>c. ?m ''$nor'' = Some c \<longrightarrow> ?H ''$nor'' c)
                    \<and> (\<forall>k c. k \<noteq> ''$or'' \<longrightarrow> k \<noteq> ''$nor'' \<longrightarrow> ?m k = Some c \<longrightarrow> ?H k c))"
    by (rule all_keys_split)
  also have "\<dots> = ((\<forall>c. ?m ''$or'' = Some c \<longrightarrow> ?H ''$or'' c)
                    \<and> (\<forall>c. ?m ''$nor'' = Some c \<longrightarrow> ?H ''$nor'' c)
                    \<and> mongo_match (mongo_getAppFilter ?qo') r)"
    by (simp only: rest mongo_match_map_of [OF d'])
  also have "\<dots> = (mongo_match (mongo_getAppFilter ?qo') r
                    \<and> (case mobile (filter_options qo) of None \<Rightarrow> True
                       | Some b \<Rightarrow> list_ex (regex_test r) getAsMobileFilter = b))"
    unfolding or nor by (cases "mobile (filter_options qo)") auto
  finally show ?thesis .
qed

text \<open>
  The clause of the mobile flag, in both backends. With the flag true a row passes the
  filter of an application query exactly when it passes the filter without the flag and
  the backend's mobile test holds; with the flag false, exactly when it passes the
  filter without the flag and the test is false; with the flag absent there is no
  clause. The warehouse's test is the \<^verbatim>\<open>OR\<close> of five signals: \<open>browser_name\<close> contains
  \<open>Mobile\<close>, \<open>device_name\<close> is \<open>iPhone\<close> or \<open>iPad\<close>, \<open>os_name\<close> is \<open>iOS\<close> or \<open>Android\<close>; it is
  false only when the three columns are not NULL. The document backend's test is the
  \<^verbatim>\<open>$or\<close> of five patterns matched without case anywhere in the value: \<open>mobile\<close> in
  \<open>browser_name\<close>, \<open>iphone\<close> or \<open>ipad\<close> in \<open>device_name\<close>, \<open>ios\<close> or \<open>android\<close> in \<open>os_name\<close>.
  A row whose \<open>browser_name\<close> is \<open>Mobile Safari\<close> satisfies both tests.
\<close>

theorem mobile_filter_clause:
  "sql_where regd (bq_getAppFilter tz now qo) r
     = (sql_where regd
          (bq_getAppFilter tz now (qo\<lparr>filter_options := (filter_options qo)\<lparr>mobile := None\<rparr>\<rparr>)) r
        \<and> (case mobile (filter_options qo) of None \<Rightarrow> True
           | Some b \<Rightarrow> sql_eval regd bq_MOBILE_TEST r = Some b))
   \<and> mongo_match (mongo_getAppFilter qo) r
     = (mongo_match
          (mongo_getAppFilter (qo\<lparr>filter_options := (filter_options qo)\<lparr>mobile := None\<rparr>\<rparr>)) r
        \<and> (case mobile (filter_options qo) of None \<Rightarrow> True
           | Some b \<Rightarrow> list_ex (regex_test r) getAsMobileFilter = b))
   \<and> (sql_eval regd bq_MOBILE_TEST r = Some True) =
       ((case sql_col r ''browser_name'' of None \<Rightarrow> False | Some b \<Rightarrow> 0 < INSTR b ''Mobile'')
        \<or> sql_col r ''device_name'' = Some ''iPhone'' \<or> sql_col r ''device_name'' = Some ''iPad''
        \<or> sql_col r ''os_name'' = Some ''iOS'' \<or> sql_col r ''os_name'' = Some ''Android'')
   \<and> (sql_eval regd bq_MOBILE_TEST r = Some False) =
       ((case sql_col r ''browser_name'' of None \<Rightarrow> False | Some b \<Rightarrow> INSTR b ''Mobile'' = 0)
        \<and> (case sql_col r ''device_name'' of None \<Rightarrow> False
            | Some d \<Rightarrow> d \<noteq> ''iPhone'' \<and> d \<noteq> ''iPad'')
        \<and> (case sql_col r ''os_name'' of None \<Rightarrow> False
            | Some s \<Rightarrow> s \<noteq> ''iOS'' \<and> s \<noteq> ''Android''))
   \<and> list_ex (regex_test r) getAsMobileFilter =
       ((case mongo_field r ''browser_name'' of None \<Rightarrow> False | Some b \<Rightarrow> regex_i ''mobile'' b)
        \<or> (case mongo_field r ''device_name'' of None \<Rightarrow> False | Some d \<Rightarrow> regex_i ''iphone'' d)
        \<or> (case mongo_field r ''device_name'' of None \<Rightarrow> False | Some d \<Rightarrow> regex_i ''ipad'' d)
        \<or> (case mongo_field r ''os_name'' of None \<Rightarrow> False | Some s \<Rightarrow> regex_i ''ios'' s)
        \<or> (case mongo_field r ''os_name'' of None \<Rightarrow> False | Some s \<Rightarrow> regex_i ''android'' s))
   \<and> (sql_col r ''browser_name'' = Some ''Mobile Safari''
        \<longrightarrow> sql_eval regd bq_MOBILE_TEST r = Some True)
   \<and> (mongo_field r ''browser_name'' = Some ''Mobile Safari''
        \<longrightarrow> list_ex (regex_test r) getAsMobileFilter)"
proof -
  have safari_bq: "0 < INSTR ''Mobile Safari'' ''Mobile''"
    by code_simp
  have safari_mongo: "regex_i ''mobile'' ''Mobile Safari''"
    by code_simp
  have s1: "sql_col r ''browser_name'' = Some ''Mobile Safari''
              \<longrightarrow> sql_eval regd bq_MOBILE_TEST r = Some True"
    using safari_bq by (simp add: bq_MOBILE_TEST_true)
  have s2: "mongo_field r ''browser_name'' = Some ''Mobile Safari''
              \<longrightarrow> list_ex (regex_test r) getAsMobileFilter"
    using safari_mongo by (simp add: mongo_MOBILE_TEST_meaning)
  show ?thesis
    using bq_getAppFilter_mobile [of regd tz now qo r] mongo_getAppFilter_mobile [of qo r]
      bq_MOBILE_TEST_true [of regd r] bq_MOBILE_TEST_false [of regd r]
      mongo_MOBILE_TEST_meaning [of r] s1 s2
    by (intro conjI) assumption+
qed

theorem mobile_filter_clause_witness:
  "sql_where (NET_REG_DOMAIN fixture_bq) (bq_getAppFilter fixture_zone fixture_now (mobile_options (Some True)))
     mobile_safari_row
   \<and> \<not> sql_where (NET_REG_DOMAIN fixture_bq)
         (bq_getAppFilter fixture_zone fixture_now (mobile_options (Some False))) mobile_safari_row
   \<and> sql_where (NET_REG_DOMAIN fixture_bq) (bq_getAppFilter fixture_zone fixture_now (mobile_options None))
       mobile_safari_row
   \<and> mongo_match (mongo_getAppFilter (mobile_options (Some True))) mobile_safari_row
   \<and> \<not> mongo_match (mongo_getAppFilter (mobile_options (Some False))) mobile_safari_row
   \<and> mongo_match (mongo_getAppFilter (mobile_options None)) mobile_safari_row"
proof -
  have unset: "\<And>m. (mobile_options m)\<lparr>filter_options :=
                  (filter_options (mobile_options m))\<lparr>mobile := None\<rparr>\<rparr> = mobile_options None"
    by (simp add: mobile_options_def)
  have sel: "\<And>m. mobile (filter_options (mobile_options m)) = m"
    by (simp add: mobile_options_def)
  have base: "sql_where (NET_REG_DOMAIN fixture_bq)
                (bq_getAppFilter fixture_zone fixture_now (mobile_options None)) mobile_safari_row
              \<and> mongo_match (mongo_getAppFilter (mobile_options None)) mobile_safari_row"
    by code_simp
  have name: "sql_col mobile_safari_row ''browser_name'' = Some ''Mobile Safari''
              \<and> mongo_field mobile_safari_row ''browser_name'' = Some ''Mobile Safari''"
    by code_simp
  show ?thesis
    using base name
      mobile_filter_clause [of "NET_REG_DOMAIN fixture_bq" fixture_zone fixture_now "mobile_options (Some True)"
        mobile_safari_row]
      mobile_filter_clause [of "NET_REG_DOMAIN fixture_bq" fixture_zone fixture_now "mobile_options (Some False)"
        mobile_safari_row]
    by (simp add: unset sel)
qed

text \<open>
  C6. The claim asks that in both backends the mobile flag tests exactly five signals:
  \<open>browser_name\<close> contains \<open>Mobile\<close>, \<open>device_name\<close> is \<open>iPhone\<close> or \<open>iPad\<close>, \<open>os_name\<close> is
  \<open>iOS\<close> or \<open>Android\<close>. The warehouse backend tests exactly these. The document backend
  tests \<^verbatim>\<open>/mobile/i\<close>, \<^verbatim>\<open>/iphone/i\<close>, \<^verbatim>\<open>/ipad/i\<close>, \<^verbatim>\<open>/ios/i\<close> and \<^verbatim>\<open>/android/i\<close>, which match
  anywhere in the value and without case. The event of a KaiOS phone shows none of the
  five signals (the warehouse's test is false on it): with the flag true the document
  backend includes it and the warehouse backend leaves it out, with the flag false the
  document backend leaves it out and the warehouse backend includes it.
\<close>

theorem mongo_mobile_signals_are_patterns:
  "mongo_match (mongo_getAppFilter (mobile_options (Some True))) kaios_row
   \<and> \<not> mongo_match (mongo_getAppFilter (mobile_options (Some False))) kaios_row
   \<and> sql_eval (NET_REG_DOMAIN fixture_bq) bq_MOBILE_TEST kaios_row = Some False
   \<and> \<not> sql_where (NET_REG_DOMAIN fixture_bq)
         (bq_getAppFilter fixture_zone fixture_now (mobile_options (Some True))) kaios_row
   \<and> sql_where (NET_REG_DOMAIN fixture_bq)
       (bq_getAppFilter fixture_zone fixture_now (mobile_options (Some False))) kaios_row"
  by code_simp

subsection \<open>Grouping with and without the existence check\<close>

lemma sum_group_sizes:
  "sum_list (map (\<lambda>y. length (filter (\<lambda>x. f x = y) xs)) (remdups (map f xs))) = length xs"
proof -
  have cnt: "\<And>y. length (filter (\<lambda>x. f x = y) xs) = count_list (map f xs) y"
    by (simp add: count_list_eq_length_filter filter_map o_def eq_commute)
  have "sum_list (map (\<lambda>y. count_list (map f xs) y) (remdups (map f xs)))
          = sum (count_list (map f xs)) (set (remdups (map f xs)))"
    by (rule sum_list_distinct_conv_sum_set) simp
  also have "\<dots> = length (map f xs)"
    by (simp add: sum_count_set)
  finally show ?thesis by (simp add: cnt)
qed

lemma set_group_by: "fst ` set (group_by f xs) = f ` set xs"
  by (force simp: group_by_def)

text \<open>The rows of the two grouping stages, and the row of a key that occurs.\<close>

lemma mongo_group_counts_keys:
  "key ` set (mongo_group_counts kf docs) = kf ` set docs"
proof -
  have "key ` set (mongo_group_counts kf docs)
          = fst ` fst ` set (group_by (\<lambda>d. (kf d, user_hash d)) docs)"
    by (force simp: mongo_group_counts_def by_user_count_desc_def Let_def group_by_def)
  also have "\<dots> = fst ` (\<lambda>d. (kf d, user_hash d)) ` set docs"
    by (simp only: set_group_by)
  also have "\<dots> = kf ` set docs"
    by (simp add: image_image)
  finally show ?thesis .
qed

lemma first_stage:
  "map (\<lambda>(kid, g). (kid, length g)) (group_by f2 docs)
     = map (\<lambda>kid. (kid, length (filter (\<lambda>d. f2 d = kid) docs))) (remdups (map f2 docs))"
  by (simp add: group_by_def o_def)

lemma remdups_filter_key:
  "filter (\<lambda>kid. fst kid = kv) (remdups (map (\<lambda>d. (kf d, uf d)) docs))
     = remdups (map (\<lambda>d. (kf d, uf d)) (filter (\<lambda>d. kf d = kv) docs))"
proof -
  have "filter (\<lambda>kid. fst kid = kv) (map (\<lambda>d. (kf d, uf d)) docs)
          = map (\<lambda>d. (kf d, uf d)) (filter (\<lambda>d. kf d = kv) docs)"
    by (simp add: filter_map o_def)
  then show ?thesis
    by (simp only: remdups_filter [symmetric])
qed


lemma count_in_selected:
  assumes "fst kid = kv"
  shows "length (filter (\<lambda>d. (kf d, uf d) = kid) docs)
           = length (filter (\<lambda>d. (kf d, uf d) = kid) (filter (\<lambda>d. kf d = kv) docs))"
proof -
  have "\<And>d. ((kf d, uf d) = kid) = (kf d = kv \<and> (kf d, uf d) = kid)"
    using assms by auto
  then have "filter (\<lambda>d. (kf d, uf d) = kid) docs
               = filter (\<lambda>d. kf d = kv \<and> (kf d, uf d) = kid) docs"
    by simp
  also have "\<dots> = filter (\<lambda>d. (kf d, uf d) = kid) (filter (\<lambda>d. kf d = kv) docs)"
    by (simp add: conj_commute)
  finally show ?thesis by simp
qed

lemma events_of_key:
  "sum_list (map (\<lambda>kid. length (filter (\<lambda>d. (kf d, uf d) = kid) docs))
               (remdups (map (\<lambda>d. (kf d, uf d)) (filter (\<lambda>d. kf d = kv) docs))))
     = length (filter (\<lambda>d. kf d = kv) docs)"
proof -
  let ?D = "filter (\<lambda>d. kf d = kv) docs"
  let ?f2 = "\<lambda>d. (kf d, uf d)"
  have "map (\<lambda>kid. length (filter (\<lambda>d. ?f2 d = kid) docs)) (remdups (map ?f2 ?D))
          = map (\<lambda>kid. length (filter (\<lambda>d. ?f2 d = kid) ?D)) (remdups (map ?f2 ?D))"
  proof (rule map_cong [OF refl])
    fix kid
    assume "kid \<in> set (remdups (map ?f2 ?D))"
    then have "fst kid = kv" by auto
    then show "length (filter (\<lambda>d. ?f2 d = kid) docs) = length (filter (\<lambda>d. ?f2 d = kid) ?D)"
      by (rule count_in_selected)
  qed
  then show ?thesis
    by (simp only: sum_group_sizes)
qed

lemma users_of_key:
  "length (remdups (map (\<lambda>d. (kf d, uf d)) (filter (\<lambda>d. kf d = kv) docs)))
     = length (remdups (map uf (filter (\<lambda>d. kf d = kv) docs)))"
proof -
  let ?D = "filter (\<lambda>d. kf d = kv) docs"
  have "map (\<lambda>d. (kf d, uf d)) ?D = map (Pair kv) (map uf ?D)"
    by simp
  then have "set (map (\<lambda>d. (kf d, uf d)) ?D) = Pair kv ` set (map uf ?D)"
    by (simp only: set_map)
  moreover have "card (Pair kv ` set (map uf ?D)) = card (set (map uf ?D))"
    by (rule card_image) (simp add: inj_on_def)
  ultimately show ?thesis
    by (simp only: length_remdups_card_conv)
qed

lemma second_stage_rows:
  "set (map F (group_by h g1)) = (\<lambda>k. F (k, filter (\<lambda>x. h x = k) g1)) ` h ` set g1"
  by (simp add: group_by_def image_image)

lemma first_stage_select:
  "filter (\<lambda>x. (case x of (kid, c) \<Rightarrow> fst kid) = kv)
          (map (\<lambda>kid. (kid, cnt kid)) (remdups (map (\<lambda>d. (kf d, uf d)) docs)))
     = map (\<lambda>kid. (kid, cnt kid))
         (remdups (map (\<lambda>d. (kf d, uf d)) (filter (\<lambda>d. kf d = kv) docs)))"
proof -
  have "filter (\<lambda>x. (case x of (kid, c) \<Rightarrow> fst kid) = kv)
          (map (\<lambda>kid. (kid, cnt kid)) (remdups (map (\<lambda>d. (kf d, uf d)) docs)))
        = map (\<lambda>kid. (kid, cnt kid))
            (filter (\<lambda>kid. fst kid = kv) (remdups (map (\<lambda>d. (kf d, uf d)) docs)))"
    by (simp add: filter_map o_def)
  then show ?thesis
    by (simp only: remdups_filter_key)
qed

lemma mongo_group_counts_row:
  assumes "kv \<in> kf ` set docs"
  shows "\<lparr>key = kv,
          user_count = length (remdups (map user_hash (filter (\<lambda>d. kf d = kv) docs))),
          event_count = length (filter (\<lambda>d. kf d = kv) docs)\<rparr>
           \<in> set (mongo_group_counts kf docs)"
proof -
  let ?f2 = "\<lambda>d. (kf d, user_hash d)"
  let ?cnt = "\<lambda>kid. length (filter (\<lambda>d. ?f2 d = kid) docs)"
  let ?g1 = "map (\<lambda>kid. (kid, ?cnt kid)) (remdups (map ?f2 docs))"
  let ?h = "\<lambda>x. case x of (kid, c) \<Rightarrow> fst kid"
  let ?D = "filter (\<lambda>d. kf d = kv) docs"
  let ?F = "\<lambda>p. case p of (kv, g) \<Rightarrow>
              \<lparr>key = kv, user_count = length g, event_count = sum_list (map snd g)\<rparr>"
  let ?sel = "map (\<lambda>kid. (kid, ?cnt kid)) (remdups (map ?f2 ?D))"
  have unfold: "mongo_group_counts kf docs = by_user_count_desc (map ?F (group_by ?h ?g1))"
    by (simp only: mongo_group_counts_def Let_def first_stage)
  have sel: "filter (\<lambda>x. ?h x = kv) ?g1 = ?sel"
    by (rule first_stage_select)
  have users: "length ?sel = length (remdups (map user_hash ?D))"
    by (simp only: length_map users_of_key)
  have "map snd ?sel = map ?cnt (remdups (map ?f2 ?D))"
    by (simp add: o_def)
  then have events: "sum_list (map snd ?sel) = length ?D"
    by (simp only: events_of_key)
  have "?h ` set ?g1 = kf ` set docs"
    by (simp add: image_image)
  with assms have "kv \<in> ?h ` set ?g1"
    by simp
  then have "?F (kv, filter (\<lambda>x. ?h x = kv) ?g1) \<in> set (map ?F (group_by ?h ?g1))"
    unfolding second_stage_rows by (rule imageI)
  then have "?F (kv, ?sel) \<in> set (mongo_group_counts kf docs)"
    by (simp only: unfold by_user_count_desc_def set_sort sel)
  moreover have "?F (kv, ?sel)
      = \<lparr>key = kv, user_count = length (remdups (map user_hash ?D)),
         event_count = length ?D\<rparr>"
    by (simp only: prod.case users events)
  ultimately show ?thesis by simp
qed

lemma update_entry: "(k, v) \<in> set (AList.update k v al)"
  by (induction al) auto

lemma checked_field_exists:
  assumes "mongo_match (AList.update k MExists f) d"
  shows "mongo_field d k \<noteq> None"
proof -
  have "\<forall>e \<in> set (AList.update k MExists f). mongo_holds d e"
    using assms by (simp add: mongo_match_def list_all_iff)
  then have "mongo_holds d (k, MExists)"
    using update_entry [of k MExists f] by blast
  then show ?thesis by simp
qed

lemma simpleAppAggregation_of_docs:
  assumes "usageIngestEndpointEnvironmentId app = Some u" and "shell (''s8_'' @ u) = Inr docs"
  shows "simpleAppAggregation shell app qo k checkExists
           = Inr (getResultWithRange qo
                    (take (limit qo) (simpleAppAggregation_pipeline qo k checkExists docs)))"
  using assms
  by (simp add: simpleAppAggregation_def runAggregation_def mongo_getCollection_def
        bind_result_def try_catch_def)

lemma pipeline_checked_keys:
  "list_all (\<lambda>row. key row \<noteq> None) (simpleAppAggregation_pipeline qo k True docs)"
proof -
  let ?f = "AList.update k MExists (mongo_getAppFilter qo)"
  have "key ` set (simpleAppAggregation_pipeline qo k True docs)
          = (\<lambda>d. mongo_field d k) ` set (filter (mongo_match ?f) docs)"
    by (simp add: simpleAppAggregation_pipeline_def Let_def mongo_group_counts_keys)
  moreover have "\<And>d. d \<in> set (filter (mongo_match ?f) docs) \<Longrightarrow> mongo_field d k \<noteq> None"
    using checked_field_exists [of k "mongo_getAppFilter qo"] by simp
  ultimately have "\<And>row. row \<in> set (simpleAppAggregation_pipeline qo k True docs)
                     \<Longrightarrow> key row \<noteq> None"
    by (metis (no_types, lifting) image_iff)
  then show ?thesis by (simp add: list_all_iff)
qed

lemma pipeline_unchecked_null_row:
  assumes "d \<in> set docs" and "mongo_match (mongo_getAppFilter qo) d" and "mongo_field d k = None"
  shows "\<lparr>key = None,
          user_count = length (remdups (map user_hash
                         (filter (\<lambda>d. mongo_field d k = None)
                            (filter (mongo_match (mongo_getAppFilter qo)) docs)))),
          event_count = length (filter (\<lambda>d. mongo_field d k = None)
                                  (filter (mongo_match (mongo_getAppFilter qo)) docs))\<rparr>
           \<in> set (simpleAppAggregation_pipeline qo k False docs)"
proof -
  let ?matched = "filter (mongo_match (mongo_getAppFilter qo)) docs"
  have "d \<in> set ?matched" using assms by simp
  then have "None \<in> (\<lambda>d. mongo_field d k) ` set ?matched"
    using assms(3) by (metis image_eqI)
  then show ?thesis
    unfolding simpleAppAggregation_pipeline_def Let_def if_False
    by (rule mongo_group_counts_row)
qed

text \<open>
  C10. In the document backend \<open>events\<close>, \<open>browsers\<close> and \<open>operatingSystems\<close> call the shared
  grouping aggregation without the existence check, while \<open>countries\<close>, \<open>eventGroups\<close> and
  \<open>utms\<close> call it with the check. With the check no result row has a missing key. Without
  it, as soon as one document that passes the filter lacks the grouped field, the
  pipeline has a row with the missing key, which counts exactly the filtered documents
  that lack the field and their distinct users. (The operation returns the first \<open>limit\<close>
  rows of the pipeline.)
\<close>

theorem field_existence_check_not_uniform:
  "mongo_events shell app qo = simpleAppAggregation shell app qo ''event'' False
   \<and> mongo_browsers shell app qo = simpleAppAggregation shell app qo ''browser_name'' False
   \<and> mongo_operatingSystems shell app qo = simpleAppAggregation shell app qo ''os_name'' False
   \<and> mongo_countries shell app qo = simpleAppAggregation shell app qo ''user_country'' True
   \<and> mongo_eventGroups shell app qo = simpleAppAggregation shell app qo ''event_group'' True
   \<and> (getUTMKey utmFilter = Inr k'
        \<longrightarrow> mongo_utms shell app qo utmFilter = simpleAppAggregation shell app qo k' True)
   \<and> (usageIngestEndpointEnvironmentId app = Some u \<and> shell (''s8_'' @ u) = Inr docs
        \<longrightarrow> simpleAppAggregation shell app qo k checkExists
             = Inr (getResultWithRange qo
                      (take (limit qo) (simpleAppAggregation_pipeline qo k checkExists docs))))
   \<and> list_all (\<lambda>row. key row \<noteq> None) (simpleAppAggregation_pipeline qo k True docs)
   \<and> (d \<in> set docs \<and> mongo_match (mongo_getAppFilter qo) d \<and> mongo_field d k = None
        \<longrightarrow> \<lparr>key = None,
              user_count = length (remdups (map user_hash
                             (filter (\<lambda>d. mongo_field d k = None)
                                (filter (mongo_match (mongo_getAppFilter qo)) docs)))),
              event_count = length (filter (\<lambda>d. mongo_field d k = None)
                                      (filter (mongo_match (mongo_getAppFilter qo)) docs))\<rparr>
               \<in> set (simpleAppAggregation_pipeline qo k False docs))"
proof -
  have ops: "mongo_events shell app qo = simpleAppAggregation shell app qo ''event'' False"
    "mongo_browsers shell app qo = simpleAppAggregation shell app qo ''browser_name'' False"
    "mongo_operatingSystems shell app qo = simpleAppAggregation shell app qo ''os_name'' False"
    "mongo_countries shell app qo = simpleAppAggregation shell app qo ''user_country'' True"
    "mongo_eventGroups shell app qo = simpleAppAggregation shell app qo ''event_group'' True"
    by (simp_all add: mongo_events_def mongo_browsers_def mongo_operatingSystems_def
          mongo_countries_def mongo_eventGroups_def)
  have utms: "getUTMKey utmFilter = Inr k'
        \<longrightarrow> mongo_utms shell app qo utmFilter = simpleAppAggregation shell app qo k' True"
    by (simp add: mongo_utms_def bind_result_def)
  have store: "usageIngestEndpointEnvironmentId app = Some u \<and> shell (''s8_'' @ u) = Inr docs
        \<longrightarrow> simpleAppAggregation shell app qo k checkExists
             = Inr (getResultWithRange qo
                      (take (limit qo) (simpleAppAggregation_pipeline qo k checkExists docs)))"
    using simpleAppAggregation_of_docs [of app u shell docs qo k checkExists] by blast
  have checked: "list_all (\<lambda>row. key row \<noteq> None) (simpleAppAggregation_pipeline qo k True docs)"
    by (rule pipeline_checked_keys)
  have nullrow: "d \<in> set docs \<and> mongo_match (mongo_getAppFilter qo) d \<and> mongo_field d k = None
        \<longrightarrow> \<lparr>key = None,
              user_count = length (remdups (map user_hash
                             (filter (\<lambda>d. mongo_field d k = None)
                                (filter (mongo_match (mongo_getAppFilter qo)) docs)))),
              event_count = length (filter (\<lambda>d. mongo_field d k = None)
                                      (filter (mongo_match (mongo_getAppFilter qo)) docs))\<rparr>
               \<in> set (simpleAppAggregation_pipeline qo k False docs)"
    using pipeline_unchecked_null_row [of d docs qo k] by blast
  show ?thesis
    using ops utms store checked nullrow by (intro conjI) assumption+
qed

theorem field_existence_check_not_uniform_witness:
  "mongo_events fixture_shell fixture_app fixture_options
     = Inr \<lparr>result = [\<lparr>key = Some ''page-view'', user_count = 2, event_count = 2\<rparr>,
                      \<lparr>key = None, user_count = 1, event_count = 1\<rparr>],
            range_from = 0, range_to = 172800000\<rparr>
   \<and> \<lparr>key = None, user_count = 1, event_count = 1\<rparr>
       \<in> set (simpleAppAggregation_pipeline fixture_options ''event'' False fixture_rows)
   \<and> mongo_countries fixture_shell fixture_app fixture_options
     = Inr \<lparr>result = [\<lparr>key = Some ''GB'', user_count = 1, event_count = 2\<rparr>],
            range_from = 0, range_to = 172800000\<rparr>
   \<and> mongo_utms fixture_shell fixture_app fixture_options ''SOURCE''
     = Inr \<lparr>result = [], range_from = 0, range_to = 172800000\<rparr>"
proof -
  let ?d = "\<lparr>dt = 86600000, user_hash = ''B'',
            flds = [(''page_url'', ''/b''), (''browser_name'', ''Chrome''), (''user_country'', ''GB'')],
            partition_time = Some 86400000\<rparr>"
  have hyp: "?d \<in> set fixture_rows \<and> mongo_match (mongo_getAppFilter fixture_options) ?d
             \<and> mongo_field ?d ''event'' = None"
    by code_simp
  have store: "usageIngestEndpointEnvironmentId fixture_app = Some ''env1''
               \<and> fixture_shell (''s8_'' @ ''env1'') = Inr fixture_rows"
    by code_simp
  have key: "getUTMKey ''SOURCE'' = Inr ''utm_source''"
    by code_simp
  have counts: "length (remdups (map user_hash
                   (filter (\<lambda>d. mongo_field d ''event'' = None)
                      (filter (mongo_match (mongo_getAppFilter fixture_options)) fixture_rows)))) = 1
                \<and> length (filter (\<lambda>d. mongo_field d ''event'' = None)
                      (filter (mongo_match (mongo_getAppFilter fixture_options)) fixture_rows)) = 1"
    by code_simp
  have pipes: "getResultWithRange fixture_options
                 (take (limit fixture_options)
                    (simpleAppAggregation_pipeline fixture_options ''event'' False fixture_rows))
               = \<lparr>result = [\<lparr>key = Some ''page-view'', user_count = 2, event_count = 2\<rparr>,
                            \<lparr>key = None, user_count = 1, event_count = 1\<rparr>],
                  range_from = 0, range_to = 172800000\<rparr>
               \<and> getResultWithRange fixture_options
                 (take (limit fixture_options)
                    (simpleAppAggregation_pipeline fixture_options ''user_country'' True fixture_rows))
               = \<lparr>result = [\<lparr>key = Some ''GB'', user_count = 1, event_count = 2\<rparr>],
                  range_from = 0, range_to = 172800000\<rparr>
               \<and> getResultWithRange fixture_options
                 (take (limit fixture_options)
                    (simpleAppAggregation_pipeline fixture_options ''utm_source'' True fixture_rows))
               = \<lparr>result = [], range_from = 0, range_to = 172800000\<rparr>"
    by code_simp
  note t = field_existence_check_not_uniform
    [where shell = fixture_shell and app = fixture_app and qo = fixture_options
       and u = "''env1''" and docs = fixture_rows and utmFilter = "''SOURCE''"
       and k' = "''utm_source''"]
  show ?thesis
    using hyp store key counts pipes
      t [where k = "''event''" and checkExists = False and d = ?d]
      t [where k = "''user_country''" and checkExists = True and d = ?d]
      t [where k = "''utm_source''" and checkExists = True and d = ?d]
    by simp
qed

end
